theory Spec2Isabelle
  imports Complex_Main "HOL-Library.Sublist" "HOL-Library.AList" "HOL-Library.Word"
begin

section \<open>Python values and exceptions\<close>

text \<open>
  The collector works on the values that \<^verbatim>\<open>response.json()\<close> returns: \<^verbatim>\<open>None\<close>,
  booleans, numbers, strings, lists and dictionaries. A dictionary is an association
  list read with \<open>map_of\<close>. Numbers are reals, which covers Python's ints and the
  finite floats.
\<close>

datatype json =
    JNull
  | JBool bool
  | JNum real
  | JStr string
  | JList "json list"
  | JObj "(string \<times> json) list"

type_synonym dict = "(string \<times> json) list"

datatype exn = AttributeError | TypeError | KeyError | IndexError

text \<open>Python truthiness, as \<^verbatim>\<open>if x:\<close> and \<^verbatim>\<open>not x\<close> read it.\<close>

fun truthy :: "json \<Rightarrow> bool" where
  "truthy JNull = False"
| "truthy (JBool b) = b"
| "truthy (JNum x) = (x \<noteq> 0)"
| "truthy (JStr s) = (s \<noteq> [])"
| "truthy (JList xs) = (xs \<noteq> [])"
| "truthy (JObj d) = (d \<noteq> [])"

text \<open>\<^verbatim>\<open>d.get(k, default)\<close> on a dictionary.\<close>

definition dict_get :: "dict \<Rightarrow> string \<Rightarrow> json \<Rightarrow> json" where
  "dict_get d k dflt = (case map_of d k of None \<Rightarrow> dflt | Some v \<Rightarrow> v)"

text \<open>
  The numeric reading of a value in an ordering comparison with a number: ints, floats
  and booleans compare (\<^verbatim>\<open>True\<close> is 1); anything else raises \<^verbatim>\<open>TypeError\<close>.
\<close>

fun as_number :: "json \<Rightarrow> exn + real" where
  "as_number (JNum x) = Inr x"
| "as_number (JBool b) = Inr (if b then 1 else 0)"
| "as_number _ = Inl TypeError"

text \<open>
  A raised exception is the left summand of a result; \<open>bind_exn\<close> runs the next
  statement only when the previous one returned.
\<close>

definition bind_exn :: "exn + 'a \<Rightarrow> ('a \<Rightarrow> exn + 'b) \<Rightarrow> exn + 'b" where
  "bind_exn m f = (case m of Inl e \<Rightarrow> Inl e | Inr x \<Rightarrow> f x)"

text \<open>\<^verbatim>\<open>d[k] = v\<close> on a dictionary: the key's value is replaced, or the pair is added.\<close>

definition dict_set :: "string \<Rightarrow> json \<Rightarrow> dict \<Rightarrow> dict" where
  "dict_set k v d = AList.update k v d"

text \<open>
  \<^verbatim>\<open>x.get(k, default)\<close> on any value: only a dictionary has the method, every other
  value raises \<^verbatim>\<open>AttributeError\<close>.
\<close>

fun py_get :: "json \<Rightarrow> string \<Rightarrow> json \<Rightarrow> exn + json" where
  "py_get (JObj d) k dflt = Inr (dict_get d k dflt)"
| "py_get _ k dflt = Inl AttributeError"

text \<open>\<^verbatim>\<open>x == 0\<close>: true of the numbers equal to zero and of \<^verbatim>\<open>False\<close>.\<close>

fun eq_zero :: "json \<Rightarrow> bool" where
  "eq_zero (JNum x) = (x = 0)"
| "eq_zero (JBool b) = (\<not> b)"
| "eq_zero _ = False"

text \<open>
  \<^verbatim>\<open>k in x\<close> for a string \<open>k\<close>: a key of a dictionary, an element of a list, a
  substring of a string; \<^verbatim>\<open>TypeError\<close> on the values that are not iterable.
\<close>

fun py_in :: "string \<Rightarrow> json \<Rightarrow> exn + bool" where
  "py_in k (JObj d) = Inr (map_of d k \<noteq> None)"
| "py_in k (JList xs) = Inr (JStr k \<in> set xs)"
| "py_in k (JStr s) = Inr (sublist k s)"
| "py_in k _ = Inl TypeError"

text \<open>\<^verbatim>\<open>x[k]\<close> with a string key, and \<^verbatim>\<open>x[0]\<close>.\<close>

fun py_getitem :: "json \<Rightarrow> string \<Rightarrow> exn + json" where
  "py_getitem (JObj d) k = (case map_of d k of None \<Rightarrow> Inl KeyError | Some v \<Rightarrow> Inr v)"
| "py_getitem _ k = Inl TypeError"

fun py_first :: "json \<Rightarrow> exn + json" where
  "py_first (JList []) = Inl IndexError"
| "py_first (JList (x # xs)) = Inr x"
| "py_first (JStr []) = Inl IndexError"
| "py_first (JStr (c # cs)) = Inr (JStr [c])"
| "py_first (JObj d) = Inl KeyError"
| "py_first _ = Inl TypeError"

text \<open>
  The elements a \<^verbatim>\<open>for\<close> loop visits: the elements of a list, the characters of a
  string, the keys of a dictionary; \<^verbatim>\<open>TypeError\<close> otherwise.
\<close>

fun py_iter :: "json \<Rightarrow> exn + json list" where
  "py_iter (JList xs) = Inr xs"
| "py_iter (JStr s) = Inr (map (\<lambda>c. JStr [c]) s)"
| "py_iter (JObj d) = Inr (map (\<lambda>kv. JStr (fst kv)) d)"
| "py_iter _ = Inl TypeError"

section \<open>The collector: fetch client\<close>

text \<open>
  What one HTTP call gives: a \<^verbatim>\<open>requests.RequestException\<close> (connection error,
  timeout, or the status error of \<^verbatim>\<open>raise_for_status\<close>), a body that is not JSON, or
  the decoded body.
\<close>

datatype http_result = RequestException | JSONDecodeError | Body json

text \<open>The test of the loop, \<^verbatim>\<open>item.get('result_type') == 'video'\<close>, on a group that is a dictionary.\<close>

definition video_group :: "dict \<Rightarrow> bool" where
  "video_group g = (dict_get g ''result_type'' JNull = JStr ''video'')"

text \<open>The \<^verbatim>\<open>for\<close> loop of \<^verbatim>\<open>search_videos\<close>, which returns at the first video group.\<close>

fun find_video_group :: "json list \<Rightarrow> exn + json option" where
  "find_video_group [] = Inr None"
| "find_video_group (item # items) =
     bind_exn (py_get item ''result_type'' JNull) (\<lambda>result_type.
       if result_type = JStr ''video''
       then bind_exn (py_get item ''data'' (JList [])) (\<lambda>d. Inr (Some d))
       else find_video_group items)"

text \<open>
  \<^verbatim>\<open>search_videos\<close> on the outcome of its HTTP call. The two \<^verbatim>\<open>except\<close> clauses turn
  the request and decoding errors into the empty dictionary; any other exception
  leaves the function.
\<close>

definition search_response :: "http_result \<Rightarrow> exn + json" where
  "search_response r =
     (case r of
        RequestException \<Rightarrow> Inr (JObj [])
      | JSONDecodeError \<Rightarrow> Inr (JObj [])
      | Body data \<Rightarrow>
          bind_exn (py_get data ''code'' JNull) (\<lambda>code.
            if eq_zero code then
              bind_exn (py_get data ''data'' (JObj [])) (\<lambda>result_data.
              bind_exn (py_in ''result'' result_data) (\<lambda>has_result.
                if has_result then
                  bind_exn (py_getitem result_data ''result'') (\<lambda>groups.
                  bind_exn (py_iter groups) (\<lambda>items.
                  bind_exn (find_video_group items) (\<lambda>found.
                    case found of
                      Some d \<Rightarrow> Inr (JObj [(''result'', d)])
                    | None \<Rightarrow>
                        if truthy groups then
                          bind_exn (py_first groups) (\<lambda>first_result.
                          bind_exn (py_get first_result ''data'' (JList [])) (\<lambda>d.
                            Inr (JObj [(''result'', d)])))
                        else Inr (JObj [(''result'', JList [])]))))
                else Inr (JObj [(''result'', JList [])])))
            else Inr (JObj [])))"

text \<open>The network, as the collector sees it: a response for each request.\<close>

record network =
  search_api :: "string \<Rightarrow> nat \<Rightarrow> http_result"
  video_info_api :: "json \<Rightarrow> http_result"

definition search_videos :: "network \<Rightarrow> string \<Rightarrow> nat \<Rightarrow> exn + json" where
  "search_videos net keyword page = search_response (search_api net keyword page)"

definition get_video_info :: "network \<Rightarrow> json \<Rightarrow> exn + json" where
  "get_video_info net bvid =
     (case video_info_api net bvid of
        RequestException \<Rightarrow> Inr (JObj [])
      | JSONDecodeError \<Rightarrow> Inr (JObj [])
      | Body data \<Rightarrow>
          bind_exn (py_get data ''code'' JNull) (\<lambda>code.
            if eq_zero code then py_get data ''data'' (JObj [])
            else Inr (JObj [])))"

section \<open>The collector: extraction\<close>

text \<open>
  \<^verbatim>\<open>s.replace(old, '')\<close>: every occurrence of \<open>old\<close> is removed, scanning from the
  left and continuing after each occurrence.
\<close>

function remove_all :: "string \<Rightarrow> string \<Rightarrow> string" where
  "remove_all old [] = []"
| "remove_all old (c # cs) =
     (if old \<noteq> [] \<and> prefix old (c # cs)
      then remove_all old (drop (length old) (c # cs))
      else c # remove_all old cs)"
  by pat_completeness auto
termination
  by (relation "measure (\<lambda>(old, s). length s)") auto

definition em_open :: string where
  \<open>em_open = ''<em class="keyword">''\<close>

definition em_close :: string where
  "em_close = ''</em>''"

text \<open>
  \<^verbatim>\<open>title.replace(...).replace(...)\<close>: only a string has the method.
\<close>

fun clean_title :: "json \<Rightarrow> exn + json" where
  "clean_title (JStr s) = Inr (JStr (remove_all em_close (remove_all em_open s)))"
| "clean_title _ = Inl AttributeError"

text \<open>
  The author: the flat \<^verbatim>\<open>author\<close> field when the item has the key, else the
  \<^verbatim>\<open>owner\<close> field, of which a dictionary gives its \<^verbatim>\<open>name\<close> and any other value its
  \<^verbatim>\<open>str()\<close>. Python's \<^verbatim>\<open>str\<close> is the parameter \<open>py_str\<close>.
\<close>

definition extract_author :: "(json \<Rightarrow> string) \<Rightarrow> dict \<Rightarrow> json" where
  "extract_author py_str video_item =
     (case map_of video_item ''author'' of
        Some a \<Rightarrow> a
      | None \<Rightarrow>
          (case map_of video_item ''owner'' of
             None \<Rightarrow> JStr ''''
           | Some owner \<Rightarrow>
               (case owner of
                  JObj owner_dict \<Rightarrow> dict_get owner_dict ''name'' (JStr '''')
                | _ \<Rightarrow> JStr (py_str owner))))"

text \<open>The body of the \<^verbatim>\<open>try\<close> block of \<^verbatim>\<open>extract_video_data\<close>.\<close>

fun extract_body :: "(json \<Rightarrow> string) \<Rightarrow> json \<Rightarrow> exn + dict" where
  "extract_body py_str (JObj video_item) =
     bind_exn (clean_title (dict_get video_item ''title'' (JStr ''''))) (\<lambda>title.
       Inr [(''bvid'', dict_get video_item ''bvid'' (JStr '''')),
            (''aid'', dict_get video_item ''aid'' (JNum 0)),
            (''title'', title),
            (''author'', extract_author py_str video_item),
            (''mid'', dict_get video_item ''mid'' (JNum 0)),
            (''description'', dict_get video_item ''description'' (JStr '''')),
            (''duration'', dict_get video_item ''duration'' (JStr '''')),
            (''pubdate'', dict_get video_item ''pubdate'' (JNum 0)),
            (''created'', dict_get video_item ''created'' (JNum 0)),
            (''view'', dict_get video_item ''play'' (JNum 0)),
            (''danmaku'', dict_get video_item ''video_review'' (JNum 0)),
            (''reply'', dict_get video_item ''review'' (JNum 0)),
            (''favorite'', dict_get video_item ''favorites'' (JNum 0)),
            (''coin'', dict_get video_item ''coins'' (JNum 0)),
            (''like'', dict_get video_item ''like'' (JNum 0)),
            (''share'', dict_get video_item ''share'' (JNum 0)),
            (''tag'', dict_get video_item ''tag'' (JStr '''')),
            (''typeid'', dict_get video_item ''typeid'' (JNum 0)),
            (''typename'', dict_get video_item ''typename'' (JStr '''')),
            (''pic'', dict_get video_item ''pic'' (JStr '''')),
            (''arcurl'', dict_get video_item ''arcurl'' (JStr '''')),
            (''pts'', dict_get video_item ''pts'' (JNum 0)),
            (''arcrank'', dict_get video_item ''arcrank'' (JStr '''')),
            (''badgepay'', dict_get video_item ''badgepay'' (JBool False))])"
| "extract_body py_str _ = Inl AttributeError"

text \<open>
  \<^verbatim>\<open>extract_video_data\<close>: the \<^verbatim>\<open>except Exception\<close> clause returns the empty dictionary.
\<close>

definition extract_video_data :: "(json \<Rightarrow> string) \<Rightarrow> json \<Rightarrow> exn + dict" where
  "extract_video_data py_str video_item =
     (case extract_body py_str video_item of
        Inl e \<Rightarrow> Inr []
      | Inr video_data \<Rightarrow> Inr video_data)"

text \<open>
  The plain fields of the dictionary that \<^verbatim>\<open>extract_video_data\<close> builds, read off its
  \<^verbatim>\<open>video_item.get(key, default)\<close> entries: the field of the record, the key of the raw
  item, and the default.
\<close>

definition documented_defaults :: "(string \<times> string \<times> json) list" where
  "documented_defaults =
     [(''bvid'', ''bvid'', JStr ''''),
      (''aid'', ''aid'', JNum 0),
      (''mid'', ''mid'', JNum 0),
      (''description'', ''description'', JStr ''''),
      (''duration'', ''duration'', JStr ''''),
      (''pubdate'', ''pubdate'', JNum 0),
      (''created'', ''created'', JNum 0),
      (''view'', ''play'', JNum 0),
      (''danmaku'', ''video_review'', JNum 0),
      (''reply'', ''review'', JNum 0),
      (''favorite'', ''favorites'', JNum 0),
      (''coin'', ''coins'', JNum 0),
      (''like'', ''like'', JNum 0),
      (''share'', ''share'', JNum 0),
      (''tag'', ''tag'', JStr ''''),
      (''typeid'', ''typeid'', JNum 0),
      (''typename'', ''typename'', JStr ''''),
      (''pic'', ''pic'', JStr ''''),
      (''arcurl'', ''arcurl'', JStr ''''),
      (''pts'', ''pts'', JNum 0),
      (''arcrank'', ''arcrank'', JStr ''''),
      (''badgepay'', ''badgepay'', JBool False)]"

section \<open>The collector: date filter\<close>

text \<open>
  \<^verbatim>\<open>timestamp = pubdate if pubdate > 0 else created\<close>, followed by the chained comparison
  \<^verbatim>\<open>start_timestamp <= timestamp <= end_timestamp\<close>. Both comparisons raise \<^verbatim>\<open>TypeError\<close>
  on a value that is not a number; when the first half of the chain is false the second
  half is not evaluated, but both halves read the same \<^verbatim>\<open>timestamp\<close>, so one conversion
  decides both.
\<close>

definition effective_timestamp :: "dict \<Rightarrow> exn + real" where
  "effective_timestamp video =
     (let pubdate = dict_get video ''pubdate'' (JNum 0);
          created = dict_get video ''created'' (JNum 0)
      in case as_number pubdate of
           Inl e \<Rightarrow> Inl e
         | Inr p \<Rightarrow> as_number (if p > 0 then pubdate else created))"

text \<open>The loop of \<^verbatim>\<open>filter_by_date\<close>, with \<^verbatim>\<open>filtered_videos\<close> as the accumulator.\<close>

fun filter_by_date_loop :: "dict list \<Rightarrow> int \<Rightarrow> int \<Rightarrow> dict list \<Rightarrow> exn + dict list" where
  "filter_by_date_loop [] start_timestamp end_timestamp filtered_videos = Inr filtered_videos"
| "filter_by_date_loop (video # videos) start_timestamp end_timestamp filtered_videos =
     (case effective_timestamp video of
        Inl e \<Rightarrow> Inl e
      | Inr timestamp \<Rightarrow>
          if real_of_int start_timestamp \<le> timestamp \<and> timestamp \<le> real_of_int end_timestamp
          then filter_by_date_loop videos start_timestamp end_timestamp (filtered_videos @ [video])
          else filter_by_date_loop videos start_timestamp end_timestamp filtered_videos)"

definition filter_by_date :: "dict list \<Rightarrow> int \<Rightarrow> int \<Rightarrow> exn + dict list" where
  "filter_by_date videos start_timestamp end_timestamp =
     filter_by_date_loop videos start_timestamp end_timestamp []"

section \<open>The collector: collection loop\<close>

text \<open>
  The part of \<^verbatim>\<open>config.py\<close> the collector reads. \<^verbatim>\<open>SEARCH_KEYWORDS\<close> is a list of
  Chinese search terms; the model takes the list as it is given.
\<close>

record config =
  search_keywords :: "string list"
  start_timestamp :: int
  end_timestamp :: int
  max_results_per_keyword :: nat

text \<open>
  One iteration of the \<^verbatim>\<open>while\<close> loop up to the inner \<^verbatim>\<open>for\<close>: the items of the page,
  or \<open>None\<close> when the loop is left (an exception of \<^verbatim>\<open>search_videos\<close>, a result
  that is empty or has no \<^verbatim>\<open>result\<close> key, an empty item list, or a value the
  \<^verbatim>\<open>for\<close> cannot iterate; the \<^verbatim>\<open>except\<close> clause breaks as the two \<^verbatim>\<open>break\<close>s do).
\<close>

definition page_items :: "exn + json \<Rightarrow> json list option" where
  "page_items r =
     (case r of
        Inl e \<Rightarrow> None
      | Inr search_result \<Rightarrow>
          if \<not> truthy search_result then None
          else (case py_in ''result'' search_result of
                  Inl e \<Rightarrow> None
                | Inr has_result \<Rightarrow>
                    if \<not> has_result then None
                    else (case py_get search_result ''result'' (JList []) of
                            Inl e \<Rightarrow> None
                          | Inr videos \<Rightarrow>
                              if \<not> truthy videos then None
                              else (case py_iter videos of
                                      Inl e \<Rightarrow> None
                                    | Inr items \<Rightarrow> Some items))))"

text \<open>
  The inner \<^verbatim>\<open>for\<close> loop. The state is the number of \<^verbatim>\<open>time.time()\<close> calls made so
  far and the list \<^verbatim>\<open>all_videos\<close>; \<open>clock n\<close> is what the \<open>n\<close>-th call returns,
  truncated by \<^verbatim>\<open>int()\<close>. An exception ends the loop and keeps what was appended.
\<close>

fun collect_items ::
  "(json \<Rightarrow> string) \<Rightarrow> (nat \<Rightarrow> int) \<Rightarrow> string \<Rightarrow> json list \<Rightarrow> nat \<times> dict list
     \<Rightarrow> (nat \<times> dict list) \<times> exn option" where
  "collect_items py_str clock keyword [] st = (st, None)"
| "collect_items py_str clock keyword (video_item # rest) (tick, all_videos) =
     (case extract_video_data py_str video_item of
        Inl e \<Rightarrow> ((tick, all_videos), Some e)
      | Inr video_data \<Rightarrow>
          if video_data \<noteq> [] then
            collect_items py_str clock keyword rest
              (Suc tick,
               all_videos @
                 [dict_set ''collected_at'' (JNum (real_of_int (clock tick)))
                    (dict_set ''search_keyword'' (JStr keyword) video_data)])
          else collect_items py_str clock keyword rest (tick, all_videos))"

text \<open>The \<^verbatim>\<open>while page <= max_pages\<close> loop of \<^verbatim>\<open>collect_keyword_data\<close>.\<close>

function collect_pages ::
  "(json \<Rightarrow> string) \<Rightarrow> network \<Rightarrow> (nat \<Rightarrow> int) \<Rightarrow> nat \<Rightarrow> string \<Rightarrow> nat \<Rightarrow> nat
     \<Rightarrow> nat \<times> dict list \<Rightarrow> nat \<times> dict list" where
  "collect_pages py_str net clock max_results keyword max_pages page st =
     (if page \<le> max_pages then
        (case page_items (search_videos net keyword page) of
           None \<Rightarrow> st
         | Some items \<Rightarrow>
             (case collect_items py_str clock keyword items st of
                (st', Some e) \<Rightarrow> st'
              | (st', None) \<Rightarrow>
                  if length (snd st') \<ge> max_results then st'
                  else collect_pages py_str net clock max_results keyword max_pages
                         (Suc page) st'))
      else st)"
  by pat_completeness auto
termination
  by (relation "measure (\<lambda>(py_str, net, clock, max_results, keyword, max_pages, page, st).
                  Suc max_pages - page)") auto

declare collect_pages.simps [simp del]

text \<open>
  \<^verbatim>\<open>collect_keyword_data\<close>: the pages from 1, then the date filter, whose
  \<^verbatim>\<open>TypeError\<close> leaves the function.
\<close>

definition collect_keyword_data ::
  "(json \<Rightarrow> string) \<Rightarrow> network \<Rightarrow> (nat \<Rightarrow> int) \<Rightarrow> config \<Rightarrow> string \<Rightarrow> nat \<Rightarrow> nat
     \<Rightarrow> nat \<times> (exn + dict list)" where
  "collect_keyword_data py_str net clock cfg keyword max_pages tick =
     (case collect_pages py_str net clock (max_results_per_keyword cfg) keyword max_pages 1
             (tick, []) of
        (tick', all_videos) \<Rightarrow>
          (tick', filter_by_date all_videos (start_timestamp cfg) (end_timestamp cfg)))"

text \<open>
  The \<^verbatim>\<open>for keyword in SEARCH_KEYWORDS\<close> loop of \<^verbatim>\<open>collect_all_data\<close>, with the
  default of 20 pages; a keyword whose collection raises is skipped. Writing the
  per-keyword files is not part of the model.
\<close>

fun collect_keywords ::
  "(json \<Rightarrow> string) \<Rightarrow> network \<Rightarrow> (nat \<Rightarrow> int) \<Rightarrow> config \<Rightarrow> string list
     \<Rightarrow> nat \<times> dict list \<Rightarrow> nat \<times> dict list" where
  "collect_keywords py_str net clock cfg [] st = st"
| "collect_keywords py_str net clock cfg (keyword # rest) (tick, all_data) =
     (case collect_keyword_data py_str net clock cfg keyword 20 tick of
        (tick', Inl e) \<Rightarrow> collect_keywords py_str net clock cfg rest (tick', all_data)
      | (tick', Inr keyword_data) \<Rightarrow>
          collect_keywords py_str net clock cfg rest (tick', all_data @ keyword_data))"

definition collected_rows ::
  "(json \<Rightarrow> string) \<Rightarrow> network \<Rightarrow> (nat \<Rightarrow> int) \<Rightarrow> config \<Rightarrow> dict list" where
  "collected_rows py_str net clock cfg =
     snd (collect_keywords py_str net clock cfg (search_keywords cfg) (0, []))"

text \<open>
  \<^verbatim>\<open>DataFrame.drop_duplicates(subset=[key], keep='last')\<close> on the rows of a frame: a
  row stays when no later row has the same key; the order of the rows is kept.
\<close>

fun drop_duplicates_last :: "('a \<Rightarrow> 'k) \<Rightarrow> 'a list \<Rightarrow> 'a list" where
  "drop_duplicates_last key [] = []"
| "drop_duplicates_last key (x # xs) =
     (if key x \<in> set (map key xs) then drop_duplicates_last key xs
      else x # drop_duplicates_last key xs)"

text \<open>
  The key of a row in the \<^verbatim>\<open>bvid\<close> column. Python compares and hashes \<^verbatim>\<open>True\<close> as 1
  and \<^verbatim>\<open>False\<close> as 0; lists and dictionaries cannot be hashed.
\<close>

fun hash_key :: "json \<Rightarrow> json" where
  "hash_key (JBool b) = JNum (if b then 1 else 0)"
| "hash_key v = v"

fun hashable :: "json \<Rightarrow> bool" where
  "hashable (JList xs) = False"
| "hashable (JObj d) = False"
| "hashable _ = True"

definition bvid_key :: "dict \<Rightarrow> json" where
  "bvid_key row = hash_key (dict_get row ''bvid'' JNull)"

text \<open>
  \<^verbatim>\<open>collect_all_data\<close>: the rows of all keywords, without duplicates of \<^verbatim>\<open>bvid\<close>; the
  empty frame when nothing was collected.
\<close>

definition dedup_rows :: "dict list \<Rightarrow> exn + dict list" where
  "dedup_rows all_data =
     (if all_data \<noteq> [] then
        if list_all (\<lambda>row. hashable (dict_get row ''bvid'' JNull)) all_data
        then Inr (drop_duplicates_last bvid_key all_data)
        else Inl TypeError
      else Inr [])"

definition collect_all_data ::
  "(json \<Rightarrow> string) \<Rightarrow> network \<Rightarrow> (nat \<Rightarrow> int) \<Rightarrow> config \<Rightarrow> exn + dict list" where
  "collect_all_data py_str net clock cfg = dedup_rows (collected_rows py_str net clock cfg)"

text \<open>The \<^verbatim>\<open>collected_at\<close> stamp of a row, as a number.\<close>

definition collected_at :: "dict \<Rightarrow> real" where
  "collected_at row = (case dict_get row ''collected_at'' JNull of JNum t \<Rightarrow> t | _ \<Rightarrow> 0)"

text \<open>The test of the date filter on one record; a record whose timestamp raises fails it.\<close>

definition in_window :: "int \<Rightarrow> int \<Rightarrow> dict \<Rightarrow> bool" where
  "in_window s e video =
     (case effective_timestamp video of
        Inl err \<Rightarrow> False
      | Inr t \<Rightarrow> real_of_int s \<le> t \<and> t \<le> real_of_int e)"

text \<open>
  Rows stamped in order by clock readings numbered from \<open>lo\<close> up to, not including,
  \<open>hi\<close>: the invariant of the collection loops.
\<close>

definition stamped :: "(nat \<Rightarrow> int) \<Rightarrow> nat \<Rightarrow> nat \<Rightarrow> dict list \<Rightarrow> bool" where
  "stamped clock lo hi rows =
     (sorted_wrt (\<lambda>a b. collected_at a \<le> collected_at b) rows \<and>
      (\<forall>r \<in> set rows. \<exists>k. lo \<le> k \<and> k < hi \<and> collected_at r = real_of_int (clock k)))"

section \<open>The collector: enrichment loop\<close>

text \<open>
  \<^verbatim>\<open>video_info.get(k1, {}).get(k2, default)\<close>: the inner value must be a dictionary
  before the default is evaluated.
\<close>

definition nested_get :: "json \<Rightarrow> string \<Rightarrow> string \<Rightarrow> exn + json \<Rightarrow> exn + json" where
  "nested_get video_info k1 k2 dflt =
     bind_exn (py_get video_info k1 (JObj [])) (\<lambda>sub.
       case sub of
         JObj d \<Rightarrow> bind_exn dflt (\<lambda>v. Inr (dict_get d k2 v))
       | _ \<Rightarrow> Inl AttributeError)"

text \<open>\<^verbatim>\<open>video_info.get(k, default)\<close> with a default that may raise.\<close>

definition get_or :: "json \<Rightarrow> string \<Rightarrow> exn + json \<Rightarrow> exn + json" where
  "get_or video_info k dflt =
     (case video_info of
        JObj d \<Rightarrow> bind_exn dflt (\<lambda>v. Inr (dict_get d k v))
      | _ \<Rightarrow> Inl AttributeError)"

text \<open>The values of a dictionary display are evaluated in order; the first exception wins.\<close>

fun eval_fields :: "(string \<times> (exn + json)) list \<Rightarrow> exn + dict" where
  "eval_fields [] = Inr []"
| "eval_fields ((k, Inl e) # rest) = Inl e"
| "eval_fields ((k, Inr v) # rest) = bind_exn (eval_fields rest) (\<lambda>d. Inr ((k, v) # d))"

text \<open>\<^verbatim>\<open>d.update(other)\<close>.\<close>

definition dict_update :: "dict \<Rightarrow> dict \<Rightarrow> dict" where
  "dict_update d other = fold (\<lambda>kv. dict_set (fst kv) (snd kv)) other d"

definition detail_fields :: "json \<Rightarrow> dict \<Rightarrow> exn + dict" where
  "detail_fields video_info row =
     eval_fields
       [(''view'', nested_get video_info ''stat'' ''view'' (py_getitem (JObj row) ''view'')),
        (''danmaku'', nested_get video_info ''stat'' ''danmaku'' (py_getitem (JObj row) ''danmaku'')),
        (''reply'', nested_get video_info ''stat'' ''reply'' (py_getitem (JObj row) ''reply'')),
        (''favorite'', nested_get video_info ''stat'' ''favorite'' (py_getitem (JObj row) ''favorite'')),
        (''coin'', nested_get video_info ''stat'' ''coin'' (py_getitem (JObj row) ''coin'')),
        (''like'', nested_get video_info ''stat'' ''like'' (py_getitem (JObj row) ''like'')),
        (''share'', nested_get video_info ''stat'' ''share'' (py_getitem (JObj row) ''share'')),
        (''duration_seconds'', get_or video_info ''duration'' (Inr (JNum 0))),
        (''cid'', get_or video_info ''cid'' (Inr (JNum 0))),
        (''pages'', get_or video_info ''pages'' (Inr (JNum 1))),
        (''owner_name'', nested_get video_info ''owner'' ''name'' (py_getitem (JObj row) ''author'')),
        (''owner_mid'', nested_get video_info ''owner'' ''mid'' (py_getitem (JObj row) ''mid'')),
        (''owner_face'', nested_get video_info ''owner'' ''face'' (Inr (JStr ''''))),
        (''tname'', get_or video_info ''tname'' (py_getitem (JObj row) ''typename'')),
        (''copyright'', get_or video_info ''copyright'' (Inr (JNum 0))),
        (''desc'', get_or video_info ''desc'' (py_getitem (JObj row) ''description'')),
        (''dynamic'', get_or video_info ''dynamic'' (Inr (JStr ''''))),
        (''subtitle'', get_or video_info ''subtitle'' (Inr (JObj []))),
        (''staff'', get_or video_info ''staff'' (Inr (JList []))),
        (''argue_info'', get_or video_info ''argue_info'' (Inr (JObj []))),
        (''honor_reply'', get_or video_info ''honor_reply'' (Inr (JObj [])))]"

text \<open>
  The \<^verbatim>\<open>try\<close> block for one row: \<open>None\<close> is the \<^verbatim>\<open>continue\<close> of a row whose \<^verbatim>\<open>bvid\<close>
  is falsy, \<open>Some\<close> the dictionary that is appended.
\<close>

definition enhance_row :: "network \<Rightarrow> dict \<Rightarrow> exn + dict option" where
  "enhance_row net row =
     bind_exn (py_getitem (JObj row) ''bvid'') (\<lambda>bvid.
       if \<not> truthy bvid then Inr None
       else
         bind_exn (get_video_info net bvid) (\<lambda>video_info.
           if truthy video_info then
             bind_exn (detail_fields video_info row) (\<lambda>fields.
               Inr (Some (dict_update row fields)))
           else Inr (Some row)))"

text \<open>
  The loop of \<^verbatim>\<open>enhance_video_data\<close> with \<^verbatim>\<open>enhanced_data\<close> as the accumulator: the
  \<^verbatim>\<open>except\<close> clause appends the row as it was.
\<close>

fun enhance_rows :: "network \<Rightarrow> dict list \<Rightarrow> dict list \<Rightarrow> dict list" where
  "enhance_rows net [] enhanced_data = enhanced_data"
| "enhance_rows net (row # rows) enhanced_data =
     (case enhance_row net row of
        Inl e \<Rightarrow> enhance_rows net rows (enhanced_data @ [row])
      | Inr None \<Rightarrow> enhance_rows net rows enhanced_data
      | Inr (Some enhanced_row) \<Rightarrow> enhance_rows net rows (enhanced_data @ [enhanced_row]))"

definition enhance_video_data :: "network \<Rightarrow> dict list \<Rightarrow> dict list" where
  "enhance_video_data net df = enhance_rows net df []"

text \<open>
  The rows the loop skips (\<^verbatim>\<open>if not bvid: continue\<close>), and what it appends for a row it
  does not skip: the enhanced row, or the row itself after an exception.
\<close>

definition falsy_bvid :: "dict \<Rightarrow> bool" where
  "falsy_bvid row = (case map_of row ''bvid'' of Some bvid \<Rightarrow> \<not> truthy bvid | None \<Rightarrow> False)"

definition enhanced_or_kept :: "network \<Rightarrow> dict \<Rightarrow> dict" where
  "enhanced_or_kept net row =
     (case enhance_row net row of Inr (Some enhanced_row) \<Rightarrow> enhanced_row | _ \<Rightarrow> row)"

text \<open>
  The engagement counters, the columns of the row that the update reads as defaults, and
  the keys that the update writes.
\<close>

definition counters :: "string list" where
  "counters = [''view'', ''danmaku'', ''reply'', ''favorite'', ''coin'', ''like'', ''share'']"

definition row_columns :: "string list" where
  "row_columns = counters @ [''author'', ''mid'', ''typename'', ''description'']"

definition detail_keys :: "string list" where
  "detail_keys = counters @
     [''duration_seconds'', ''cid'', ''pages'', ''owner_name'', ''owner_mid'', ''owner_face'',
      ''tname'', ''copyright'', ''desc'', ''dynamic'', ''subtitle'', ''staff'', ''argue_info'',
      ''honor_reply'']"

section \<open>The analyzer: derived engagement metrics\<close>
















section \<open>The analyzer: sentiment\<close>

datatype sentiment = Positive | Negative | Neutral

text \<open>\<^verbatim>\<open>ANALYSIS_CONFIG['sentiment_threshold']\<close> and its shipped values.\<close>

record sentiment_threshold =
  positive :: real
  negative :: real

definition ANALYSIS_CONFIG_sentiment_threshold :: sentiment_threshold where
  "ANALYSIS_CONFIG_sentiment_threshold = \<lparr>positive = 6 / 10, negative = - (1 / 10)\<rparr>"

text \<open>The \<^verbatim>\<open>if\<close>/\<^verbatim>\<open>elif\<close>/\<^verbatim>\<open>else\<close> that classifies a score.\<close>

definition classify :: "sentiment_threshold \<Rightarrow> real \<Rightarrow> sentiment" where
  "classify th sentiment_score =
     (if sentiment_score > positive th then Positive
      else if sentiment_score < negative th then Negative
      else Neutral)"

text \<open>
  A title is a Python \<^verbatim>\<open>str\<close>: a list of Unicode code points. \<^verbatim>\<open>title.strip()\<close> removes
  the white space of \<^verbatim>\<open>str.isspace\<close> from both ends: U+0009 to U+000D, U+001C to U+0020,
  U+0085, U+00A0, U+1680, U+2000 to U+200A, U+2028, U+2029, U+202F, U+205F and U+3000.
  The result is non-empty when the title has a code point that is not white space.
\<close>

type_synonym unicode = "nat list"

definition is_space :: "nat \<Rightarrow> bool" where
  "is_space cp =
     (cp \<in> {9..13} \<union> {28..32} \<union> {133, 160, 5760} \<union> {8192..8202} \<union>
            {8232, 8233, 8239, 8287, 12288})"

definition strip_nonempty :: "unicode \<Rightarrow> bool" where
  "strip_nonempty title = list_ex (\<lambda>cp. \<not> is_space cp) title"

text \<open>
  One iteration of the title loop of \<^verbatim>\<open>analyze_sentiment\<close>. \<open>snow title\<close> is the
  value of \<^verbatim>\<open>SnowNLP(title).sentiments\<close>, \<open>None\<close> when the library raises; the bare
  \<^verbatim>\<open>except\<close> and the empty title both give \<^verbatim>\<open>neutral\<close> with the score 0.5.
\<close>

definition title_sentiment ::
  "(unicode \<Rightarrow> real option) \<Rightarrow> sentiment_threshold \<Rightarrow> unicode \<Rightarrow> sentiment \<times> real" where
  "title_sentiment snow th title =
     (if strip_nonempty title then
        (case snow title of
           Some sentiment_score \<Rightarrow> (classify th sentiment_score, sentiment_score)
         | None \<Rightarrow> (Neutral, 1 / 2))
      else (Neutral, 1 / 2))"

text \<open>
  The columns \<^verbatim>\<open>sentiment\<close> and \<^verbatim>\<open>sentiment_score\<close>, and the two keyword aggregates of
  the result, each present only when a title has its label. \<open>extract_tags\<close> is
  \<^verbatim>\<open>jieba.analyse.extract_tags(text, topK=20)\<close>; \<^verbatim>\<open>' '.join\<close> is \<open>join_titles\<close>.
  The grouped statistics of the result are not part of the model.
\<close>

fun join_titles :: "unicode list \<Rightarrow> unicode" where
  "join_titles [] = []"
| "join_titles [t] = t"
| "join_titles (t # ts) = t @ [32] @ join_titles ts"

record sentiment_result =
  sentiment_column :: "sentiment list"
  sentiment_score_column :: "real list"
  positive_keywords :: "unicode list option"
  negative_keywords :: "unicode list option"

definition titles_with :: "sentiment \<Rightarrow> unicode list \<Rightarrow> sentiment list \<Rightarrow> unicode list" where
  "titles_with label titles sentiments =
     map fst (filter (\<lambda>p. snd p = label) (zip titles sentiments))"

definition keywords_of ::
  "(unicode \<Rightarrow> unicode list) \<Rightarrow> unicode list \<Rightarrow> unicode list \<Rightarrow> unicode list option" where
  "keywords_of extract_tags stopwords titles =
     (if titles \<noteq> [] then
        Some (filter (\<lambda>kw. kw \<notin> set stopwords) (extract_tags (join_titles titles)))
      else None)"

definition analyze_sentiment ::
  "(unicode \<Rightarrow> real option) \<Rightarrow> (unicode \<Rightarrow> unicode list) \<Rightarrow> unicode list \<Rightarrow> sentiment_threshold
     \<Rightarrow> unicode list \<Rightarrow> sentiment_result" where
  "analyze_sentiment snow extract_tags stopwords th titles =
     (let sentiments = map (\<lambda>title. fst (title_sentiment snow th title)) titles;
          sentiment_scores = map (\<lambda>title. snd (title_sentiment snow th title)) titles
      in \<lparr>sentiment_column = sentiments,
          sentiment_score_column = sentiment_scores,
          positive_keywords =
            keywords_of extract_tags stopwords (titles_with Positive titles sentiments),
          negative_keywords =
            keywords_of extract_tags stopwords (titles_with Negative titles sentiments)\<rparr>)"

section \<open>The command line\<close>

text \<open>
  The methods that \<^verbatim>\<open>class BilibiliAnalyzer\<close> defines (\<^verbatim>\<open>main.py\<close>). Calling a method
  the class does not define raises \<^verbatim>\<open>AttributeError\<close>; the body of a defined method
  is the parameter \<open>bodies\<close>.
\<close>

definition BilibiliAnalyzer_methods :: "string list" where
  "BilibiliAnalyzer_methods =
     [''__init__'', ''_setup_logger'', ''_ensure_directories'', ''collect_only'',
      ''run_data_analysis'', ''run_visualization'', ''_display_analysis_summary'',
      ''run_full_analysis'']"

definition call_method :: "(string \<Rightarrow> exn option) \<Rightarrow> string \<Rightarrow> string list \<times> exn option" where
  "call_method bodies name =
     (if name \<in> set BilibiliAnalyzer_methods then ([name], bodies name)
      else ([], Some AttributeError))"

datatype run_mode = Collect | Analyze | Visualize | Full

record cli_args =
  mode :: run_mode
  force_recollect :: bool
  dry_run :: bool

datatype exit_status = Returned | SysExit nat

text \<open>
  The messages that \<^verbatim>\<open>cli.main\<close> logs: "Dry run mode - checking configuration...",
  "Configuration validation passed", "Starting Bilibili Content Analyzer in ... mode",
  "Analysis completed successfully", and at level ERROR "Analysis failed: ..." with the
  exception.
\<close>

datatype log_message =
    DryRunChecking
  | ValidationPassed
  | Starting run_mode
  | CompletedSuccessfully
  | AnalysisFailed exn

text \<open>
  \<^verbatim>\<open>cli.main\<close> after the analyzer object is built: the methods whose bodies ran, the
  messages logged, and how the process ends. The \<^verbatim>\<open>except Exception\<close> clause logs the
  failure and calls \<^verbatim>\<open>sys.exit(1)\<close>.
\<close>

definition cli_main ::
  "(string \<Rightarrow> exn option) \<Rightarrow> cli_args \<Rightarrow> string list \<times> log_message list \<times> exit_status" where
  "cli_main bodies args =
     (if dry_run args then
        (case call_method bodies ''validate_config'' of
           (called, Some e) \<Rightarrow> (called, [DryRunChecking, AnalysisFailed e], SysExit 1)
         | (called, None) \<Rightarrow> (called, [DryRunChecking, ValidationPassed], Returned))
      else
        (case call_method bodies
                (case mode args of
                   Collect \<Rightarrow> ''collect_only''
                 | Analyze \<Rightarrow> ''analyze_only''
                 | Visualize \<Rightarrow> ''visualize_only''
                 | Full \<Rightarrow> ''run_full_analysis'') of
           (called, Some e) \<Rightarrow>
             (called, [Starting (mode args), AnalysisFailed e], SysExit 1)
         | (called, None) \<Rightarrow>
             (called, [Starting (mode args), CompletedSuccessfully], Returned)))"

section \<open>Properties of the date filter\<close>

lemma filter_by_date_loop_filter:
  assumes "\<And>v. v \<in> set videos \<Longrightarrow> effective_timestamp v = Inr (ts v)"
  shows "filter_by_date_loop videos s e acc =
           Inr (acc @ filter (\<lambda>v. real_of_int s \<le> ts v \<and> ts v \<le> real_of_int e) videos)"
  using assms by (induction videos arbitrary: acc) simp_all

lemma effective_timestamp_numbers:
  assumes "dict_get v ''pubdate'' (JNum 0) = JNum p" and "dict_get v ''created'' (JNum 0) = JNum c"
  shows "effective_timestamp v = Inr (if p > 0 then p else c)"
  using assms by (simp add: effective_timestamp_def)

text \<open>
  C4. On records whose \<open>pubdate\<close> and \<open>created\<close> are numbers (0 when the key is
  absent), the date filter returns, in their original order, exactly the records whose
  effective timestamp (\<open>pubdate\<close> when it is positive, otherwise \<open>created\<close>) lies in
  the window, both ends included.
\<close>

theorem filter_by_date_keeps_window:
  assumes "\<And>v. v \<in> set videos \<Longrightarrow>
             dict_get v ''pubdate'' (JNum 0) = JNum (pubdate v) \<and>
             dict_get v ''created'' (JNum 0) = JNum (created v)"
  shows "filter_by_date videos start_ts end_ts =
           Inr (filter (\<lambda>v. real_of_int start_ts \<le> (if pubdate v > 0 then pubdate v else created v) \<and>
                            (if pubdate v > 0 then pubdate v else created v) \<le> real_of_int end_ts)
                  videos)"
proof -
  have "effective_timestamp v = Inr (if pubdate v > 0 then pubdate v else created v)"
    if "v \<in> set videos" for v
    using assms [OF that] by (intro effective_timestamp_numbers) simp_all
  from filter_by_date_loop_filter [OF this, of videos start_ts end_ts "[]"]
  show ?thesis
    by (simp add: filter_by_date_def)
qed

theorem filter_by_date_keeps_window_witness:
  "filter_by_date
     [[(''pubdate'', JNum 150)],
      [(''pubdate'', JNum 0), (''created'', JNum 250)],
      [(''created'', JNum 100)],
      [(''pubdate'', JNum 200), (''created'', JNum 5)],
      [(''pubdate'', JNum 99), (''created'', JNum 150)]] 100 200 =
   Inr [[(''pubdate'', JNum 150)],
        [(''created'', JNum 100)],
        [(''pubdate'', JNum 200), (''created'', JNum 5)]]"
proof -
  let ?num = "\<lambda>k v. case dict_get v k (JNum 0) of JNum x \<Rightarrow> x | _ \<Rightarrow> 0"
  let ?videos = "[[(''pubdate'', JNum 150)],
      [(''pubdate'', JNum 0), (''created'', JNum 250)],
      [(''created'', JNum 100)],
      [(''pubdate'', JNum 200), (''created'', JNum 5)],
      [(''pubdate'', JNum 99), (''created'', JNum 150)]]"
  have h: "\<And>v. v \<in> set ?videos \<Longrightarrow>
             dict_get v ''pubdate'' (JNum 0) = JNum (?num ''pubdate'' v) \<and>
             dict_get v ''created'' (JNum 0) = JNum (?num ''created'' v)"
    by (auto simp: dict_get_def)
  show ?thesis
    using filter_by_date_keeps_window [of ?videos "?num ''pubdate''" "?num ''created''" 100 200, OF h]
    by (simp add: dict_get_def)
qed

section \<open>Properties of the derived metrics\<close>








section \<open>Properties of the sentiment classification\<close>

lemma title_sentiment_fallback_consistent:
  assumes "negative th \<le> 1 / 2" and "1 / 2 \<le> positive th"
  shows "fst (title_sentiment snow th title) = classify th (snd (title_sentiment snow th title))"
  using assms by (auto simp: title_sentiment_def classify_def split: option.splits)

text \<open>
  C2. With thresholds in their order (negative cutoff at most the positive cutoff), a
  score strictly above the positive cutoff is labelled positive, one strictly below the
  negative cutoff negative, and every other score neutral, the two cutoffs themselves
  included; for a title that the library scores, the label of the title loop is this
  function of the score and the thresholds. When the thresholds have the fallback score
  0.5 between them, as the shipped ones (0.6 and -0.1) do, the label of every row, the
  rows of blank and of failing titles included, is this function of the row's score.
\<close>

theorem sentiment_label_strict:
  assumes "negative th \<le> positive th"
  shows "(s > positive th \<longrightarrow> classify th s = Positive) \<and>
         (s < negative th \<longrightarrow> classify th s = Negative) \<and>
         (negative th \<le> s \<and> s \<le> positive th \<longrightarrow> classify th s = Neutral) \<and>
         classify th (positive th) = Neutral \<and>
         classify th (negative th) = Neutral \<and>
         (strip_nonempty title \<and> snow title = Some s \<longrightarrow>
            title_sentiment snow th title = (classify th s, s)) \<and>
         (negative th \<le> 1 / 2 \<and> 1 / 2 \<le> positive th \<longrightarrow>
            fst (title_sentiment snow th title) =
              classify th (snd (title_sentiment snow th title))) \<and>
         fst (title_sentiment snow ANALYSIS_CONFIG_sentiment_threshold title) =
           classify ANALYSIS_CONFIG_sentiment_threshold
             (snd (title_sentiment snow ANALYSIS_CONFIG_sentiment_threshold title))"
proof -
  have c: "(s > positive th \<longrightarrow> classify th s = Positive) \<and>
         (s < negative th \<longrightarrow> classify th s = Negative) \<and>
         (negative th \<le> s \<and> s \<le> positive th \<longrightarrow> classify th s = Neutral) \<and>
         classify th (positive th) = Neutral \<and>
         classify th (negative th) = Neutral \<and>
         (strip_nonempty title \<and> snow title = Some s \<longrightarrow>
            title_sentiment snow th title = (classify th s, s))"
    using assms by (auto simp: classify_def title_sentiment_def)
  have g: "negative th \<le> 1 / 2 \<and> 1 / 2 \<le> positive th \<longrightarrow>
            fst (title_sentiment snow th title) =
              classify th (snd (title_sentiment snow th title))"
    using title_sentiment_fallback_consistent [of th snow title] by blast
  have sh: "fst (title_sentiment snow ANALYSIS_CONFIG_sentiment_threshold title) =
           classify ANALYSIS_CONFIG_sentiment_threshold
             (snd (title_sentiment snow ANALYSIS_CONFIG_sentiment_threshold title))"
    by (rule title_sentiment_fallback_consistent)
       (simp_all add: ANALYSIS_CONFIG_sentiment_threshold_def)
  from c g sh show ?thesis
    by simp
qed

theorem sentiment_label_strict_witness:
  "negative ANALYSIS_CONFIG_sentiment_threshold \<le> positive ANALYSIS_CONFIG_sentiment_threshold \<and>
   classify ANALYSIS_CONFIG_sentiment_threshold (65 / 100) = Positive \<and>
   classify ANALYSIS_CONFIG_sentiment_threshold (6 / 10) = Neutral \<and>
   classify ANALYSIS_CONFIG_sentiment_threshold (- (1 / 10)) = Neutral \<and>
   title_sentiment (\<lambda>t. Some (65 / 100)) ANALYSIS_CONFIG_sentiment_threshold [111, 107] =
     (Positive, 65 / 100) \<and>
   title_sentiment (\<lambda>t. Some (65 / 100)) ANALYSIS_CONFIG_sentiment_threshold [160, 12288] =
     (Neutral, 1 / 2) \<and>
   classify ANALYSIS_CONFIG_sentiment_threshold (1 / 2) = Neutral"
proof -
  let ?th = ANALYSIS_CONFIG_sentiment_threshold
  let ?snow = "\<lambda>t :: unicode. Some (65 / 100 :: real)"
  have h: "negative ?th \<le> positive ?th"
    by (simp add: ANALYSIS_CONFIG_sentiment_threshold_def)
  have ne: "strip_nonempty [111, 107]"
    by (simp add: strip_nonempty_def is_space_def)
  have blank: "title_sentiment ?snow ?th [160, 12288] = (Neutral, 1 / 2)"
    by (simp add: title_sentiment_def strip_nonempty_def is_space_def)
  from sentiment_label_strict [OF h, of "65 / 100" "[111, 107]" ?snow]
  have 1: "classify ?th (65 / 100) = Positive"
    and 2: "title_sentiment ?snow ?th [111, 107] = (classify ?th (65 / 100), 65 / 100)"
    using ne by (simp_all add: ANALYSIS_CONFIG_sentiment_threshold_def)
  from sentiment_label_strict [OF h, of "1 / 2" "[160, 12288]" ?snow]
  have 3: "classify ?th (positive ?th) = Neutral" "classify ?th (negative ?th) = Neutral"
    and 4: "fst (title_sentiment ?snow ?th [160, 12288]) =
            classify ?th (snd (title_sentiment ?snow ?th [160, 12288]))"
    by simp_all
  from 4 blank have 5: "classify ?th (1 / 2) = Neutral"
    by simp
  from 3 have 6: "classify ?th (6 / 10) = Neutral" "classify ?th (- (1 / 10)) = Neutral"
    by (simp_all add: ANALYSIS_CONFIG_sentiment_threshold_def)
  from h 1 2 5 6 blank show ?thesis
    by simp
qed

lemma title_sentiment_not_negative:
  assumes "\<And>t s. snow t = Some s \<Longrightarrow> 0 \<le> s \<and> s \<le> 1"
  shows "fst (title_sentiment snow ANALYSIS_CONFIG_sentiment_threshold title) \<noteq> Negative"
    and "0 \<le> snd (title_sentiment snow ANALYSIS_CONFIG_sentiment_threshold title)"
    and "snd (title_sentiment snow ANALYSIS_CONFIG_sentiment_threshold title) \<le> 1"
proof -
  have r: "0 \<le> s \<and> s \<le> 1" if "snow title = Some s" for s
    using assms that by blast
  show "fst (title_sentiment snow ANALYSIS_CONFIG_sentiment_threshold title) \<noteq> Negative"
    using r by (cases "snow title")
      (auto simp: title_sentiment_def classify_def ANALYSIS_CONFIG_sentiment_threshold_def)
  show "0 \<le> snd (title_sentiment snow ANALYSIS_CONFIG_sentiment_threshold title)"
    using r by (cases "snow title") (auto simp: title_sentiment_def)
  show "snd (title_sentiment snow ANALYSIS_CONFIG_sentiment_threshold title) \<le> 1"
    using r by (cases "snow title") (auto simp: title_sentiment_def)
qed

lemma titles_with_empty:
  "label \<notin> set sentiments \<Longrightarrow> titles_with label titles sentiments = []"
  by (auto simp: titles_with_def filter_empty_conv dest: set_zip_rightD)

text \<open>
  C10. Under the shipped thresholds (0.6 and -0.1), when the library's scores lie in
  [0, 1], no title is labelled negative, so the result has no negative-keyword
  aggregate, and every score of the column lies in [0, 1].
\<close>

theorem shipped_thresholds_never_negative:
  assumes "\<And>t s. snow t = Some s \<Longrightarrow> 0 \<le> s \<and> s \<le> 1"
  shows "Negative \<notin> set (sentiment_column
           (analyze_sentiment snow extract_tags stopwords ANALYSIS_CONFIG_sentiment_threshold titles)) \<and>
         negative_keywords
           (analyze_sentiment snow extract_tags stopwords ANALYSIS_CONFIG_sentiment_threshold titles) = None \<and>
         (\<forall>x \<in> set (sentiment_score_column
           (analyze_sentiment snow extract_tags stopwords ANALYSIS_CONFIG_sentiment_threshold titles)).
            0 \<le> x \<and> x \<le> 1)"
proof -
  let ?th = ANALYSIS_CONFIG_sentiment_threshold
  have a: "Negative \<notin> set (map (\<lambda>title. fst (title_sentiment snow ?th title)) titles)"
  proof
    assume "Negative \<in> set (map (\<lambda>title. fst (title_sentiment snow ?th title)) titles)"
    then obtain t where "fst (title_sentiment snow ?th t) = Negative"
      by (metis (no_types, lifting) imageE list.set_map)
    with title_sentiment_not_negative(1) [of snow t] assms show False
      by blast
  qed
  then have b: "titles_with Negative titles (map (\<lambda>title. fst (title_sentiment snow ?th title)) titles) = []"
    by (rule titles_with_empty)
  show ?thesis
    using a b title_sentiment_not_negative(2,3) [of snow] assms
    by (auto simp: analyze_sentiment_def Let_def keywords_of_def)
qed

theorem shipped_thresholds_never_negative_witness:
  "Negative \<notin> set (sentiment_column
     (analyze_sentiment
        (\<lambda>t. if t = [103, 111, 111, 100] then Some (9 / 10)
              else if t = [109, 101, 104] then Some (1 / 20) else None)
        (\<lambda>t. []) [] ANALYSIS_CONFIG_sentiment_threshold
        [[103, 111, 111, 100], [109, 101, 104], [32, 160], [120]])) \<and>
   negative_keywords
     (analyze_sentiment
        (\<lambda>t. if t = [103, 111, 111, 100] then Some (9 / 10)
              else if t = [109, 101, 104] then Some (1 / 20) else None)
        (\<lambda>t. []) [] ANALYSIS_CONFIG_sentiment_threshold
        [[103, 111, 111, 100], [109, 101, 104], [32, 160], [120]]) = None \<and>
   sentiment_column
     (analyze_sentiment
        (\<lambda>t. if t = [103, 111, 111, 100] then Some (9 / 10)
              else if t = [109, 101, 104] then Some (1 / 20) else None)
        (\<lambda>t. []) [] ANALYSIS_CONFIG_sentiment_threshold
        [[103, 111, 111, 100], [109, 101, 104], [32, 160], [120]]) =
     [Positive, Neutral, Neutral, Neutral]"
proof -
  let ?snow = "\<lambda>t :: unicode. if t = [103, 111, 111, 100] then Some (9 / 10 :: real)
                   else if t = [109, 101, 104] then Some (1 / 20) else None"
  let ?titles = "[[103, 111, 111, 100], [109, 101, 104], [32, 160], [120]] :: unicode list"
  have h: "\<And>t s. ?snow t = Some s \<Longrightarrow> 0 \<le> s \<and> s \<le> 1"
    by (auto split: if_splits)
  have c: "sentiment_column
     (analyze_sentiment ?snow (\<lambda>t. []) [] ANALYSIS_CONFIG_sentiment_threshold ?titles) =
       [Positive, Neutral, Neutral, Neutral]"
    by (simp add: analyze_sentiment_def Let_def title_sentiment_def classify_def
          strip_nonempty_def is_space_def ANALYSIS_CONFIG_sentiment_threshold_def)
  show ?thesis
    using shipped_thresholds_never_negative [of ?snow "\<lambda>t. []" "[]" ?titles, OF h] c
    by simp
qed

section \<open>Properties of the extraction\<close>

lemma extract_video_data_returns: "\<exists>r. extract_video_data py_str video_item = Inr r"
  by (simp add: extract_video_data_def split: sum.splits)

lemma clean_title_ok:
  assumes "map_of d ''title'' = None \<or> (\<exists>s. map_of d ''title'' = Some (JStr s))"
  shows "\<exists>t. clean_title (dict_get d ''title'' (JStr '''')) = Inr (JStr t) \<and>
             (map_of d ''title'' = None \<longrightarrow> t = '''')"
  using assms by (auto simp: dict_get_def)

lemma dict_get_missing: "map_of d key = None \<Longrightarrow> dict_get d key dflt = dflt"
  by (simp add: dict_get_def)

lemma extract_video_data_fields:
  assumes "clean_title (dict_get d ''title'' (JStr '''')) = Inr title"
  shows "\<exists>r. extract_video_data py_str (JObj d) = Inr r \<and>
           map_of r ''title'' = Some title \<and>
           map_of r ''author'' = Some (extract_author py_str d) \<and>
           (\<forall>(field, key, dflt) \<in> set documented_defaults.
               map_of r field = Some (dict_get d key dflt))"
  using assms
  by (simp add: extract_video_data_def bind_exn_def documented_defaults_def)

lemma extract_video_data_defaults:
  "(\<exists>r. extract_video_data py_str video_item = Inr r) \<and>
   (\<forall>d. video_item = JObj d \<and>
          (map_of d ''title'' = None \<or> (\<exists>s. map_of d ''title'' = Some (JStr s))) \<longrightarrow>
      (\<exists>r. extract_video_data py_str video_item = Inr r \<and> r \<noteq> [] \<and>
           (\<forall>(field, key, dflt) \<in> set documented_defaults.
               map_of r field = Some (dict_get d key dflt) \<and>
               (map_of d key = None \<longrightarrow> map_of r field = Some dflt)) \<and>
           (map_of d ''title'' = None \<longrightarrow> map_of r ''title'' = Some (JStr [])) \<and>
           (map_of d ''author'' = None \<and> map_of d ''owner'' = None \<longrightarrow>
              map_of r ''author'' = Some (JStr []))))"
proof (intro conjI allI impI)
  show "\<exists>r. extract_video_data py_str video_item = Inr r"
    by (rule extract_video_data_returns)
next
  fix d
  assume a: "video_item = JObj d \<and>
    (map_of d ''title'' = None \<or> (\<exists>s. map_of d ''title'' = Some (JStr s)))"
  from a obtain t where t: "clean_title (dict_get d ''title'' (JStr [])) = Inr (JStr t)"
    and t0: "map_of d ''title'' = None \<longrightarrow> t = []"
    using clean_title_ok [of d] by auto
  from extract_video_data_fields [OF t, of py_str]
  obtain r where r: "extract_video_data py_str (JObj d) = Inr r"
    and rt: "map_of r ''title'' = Some (JStr t)"
    and ra: "map_of r ''author'' = Some (extract_author py_str d)"
    and rf: "\<forall>(field, key, dflt) \<in> set documented_defaults.
               map_of r field = Some (dict_get d key dflt)"
    by blast
  have ne: "r \<noteq> []"
    using rt by auto
  have rf': "\<forall>(field, key, dflt) \<in> set documented_defaults.
               map_of r field = Some (dict_get d key dflt) \<and>
               (map_of d key = None \<longrightarrow> map_of r field = Some dflt)"
  proof (intro ballI, clarify)
    fix field key dflt
    assume "(field, key, dflt) \<in> set documented_defaults"
    with rf have "map_of r field = Some (dict_get d key dflt)"
      by fast
    then show "map_of r field = Some (dict_get d key dflt) \<and>
               (map_of d key = None \<longrightarrow> map_of r field = Some dflt)"
      by (simp add: dict_get_missing)
  qed
  have ra': "map_of d ''author'' = None \<and> map_of d ''owner'' = None \<longrightarrow>
              map_of r ''author'' = Some (JStr [])"
    using ra by (simp add: extract_author_def)
  have rt': "map_of d ''title'' = None \<longrightarrow> map_of r ''title'' = Some (JStr [])"
    using rt t0 by simp
  have r': "extract_video_data py_str video_item = Inr r"
    using a r by simp
  show "\<exists>r. extract_video_data py_str video_item = Inr r \<and> r \<noteq> [] \<and>
           (\<forall>(field, key, dflt) \<in> set documented_defaults.
               map_of r field = Some (dict_get d key dflt) \<and>
               (map_of d key = None \<longrightarrow> map_of r field = Some dflt)) \<and>
           (map_of d ''title'' = None \<longrightarrow> map_of r ''title'' = Some (JStr [])) \<and>
           (map_of d ''author'' = None \<and> map_of d ''owner'' = None \<longrightarrow>
              map_of r ''author'' = Some (JStr []))"
    by (intro exI [of _ r] conjI r' ne rf' rt' ra')
qed

lemma extract_video_data_untitled:
  assumes "(\<forall>d. video_item \<noteq> JObj d) \<or>
           (\<exists>d x. video_item = JObj d \<and> map_of d ''title'' = Some x \<and> (\<forall>s. x \<noteq> JStr s))"
  shows "extract_video_data py_str video_item = Inr []"
  using assms
proof
  assume "\<forall>d. video_item \<noteq> JObj d"
  then show ?thesis
    by (cases video_item) (simp_all add: extract_video_data_def)
next
  assume "\<exists>d x. video_item = JObj d \<and> map_of d ''title'' = Some x \<and> (\<forall>s. x \<noteq> JStr s)"
  then obtain d x where v: "video_item = JObj d" and x: "map_of d ''title'' = Some x"
    and n: "\<forall>s. x \<noteq> JStr s"
    by blast
  from n have "clean_title x = Inl AttributeError"
    by (cases x) simp_all
  with x have "clean_title (dict_get d ''title'' (JStr [])) = Inl AttributeError"
    by (simp add: dict_get_def)
  with v show ?thesis
    by (simp add: extract_video_data_def bind_exn_def)
qed

text \<open>
  C8, which does not hold as stated: an item whose title is not a string (here the
  number 5) makes the \<^verbatim>\<open>try\<close> block raise, and the \<^verbatim>\<open>except\<close> clause returns the empty
  dictionary, in which the missing view count has no default.
\<close>

theorem extract_odd_title_counterexample:
  "extract_video_data (\<lambda>v. []) (JObj [(''bvid'', JStr ''BV1''), (''title'', JNum 5)]) = Inr [] \<and>
   map_of (projr (extract_video_data (\<lambda>v. [])
                    (JObj [(''bvid'', JStr ''BV1''), (''title'', JNum 5)]))) ''view''
     \<noteq> Some (JNum 0)"
proof -
  have "extract_video_data (\<lambda>v. []) (JObj [(''bvid'', JStr ''BV1''), (''title'', JNum 5)]) = Inr []"
    by (rule extract_video_data_untitled) simp
  then show ?thesis
    by simp
qed

text \<open>
  C8, amended. \<^verbatim>\<open>extract_video_data\<close> returns on every raw item, whatever its shape, and
  never raises. On an item that is a dictionary whose title is absent or a string it
  returns a non-empty record in which every plain field holds the item's value, or its
  default when the key is missing (0 for the counters, the empty string for the texts), a
  missing title gives the empty title, and a missing author and owner give the empty
  author. On every other item (not a dictionary, or with a title that is not a string) it
  returns the empty dictionary.
\<close>

theorem extract_never_raises_defaults:
  "(\<exists>r. extract_video_data py_str video_item = Inr r) \<and>
   (\<forall>d. video_item = JObj d \<and>
          (map_of d ''title'' = None \<or> (\<exists>s. map_of d ''title'' = Some (JStr s))) \<longrightarrow>
      (\<exists>r. extract_video_data py_str video_item = Inr r \<and> r \<noteq> [] \<and>
           (\<forall>(field, key, dflt) \<in> set documented_defaults.
               map_of r field = Some (dict_get d key dflt) \<and>
               (map_of d key = None \<longrightarrow> map_of r field = Some dflt)) \<and>
           (map_of d ''title'' = None \<longrightarrow> map_of r ''title'' = Some (JStr [])) \<and>
           (map_of d ''author'' = None \<and> map_of d ''owner'' = None \<longrightarrow>
              map_of r ''author'' = Some (JStr [])))) \<and>
   ((\<forall>d. video_item \<noteq> JObj d) \<or>
    (\<exists>d x. video_item = JObj d \<and> map_of d ''title'' = Some x \<and> (\<forall>s. x \<noteq> JStr s)) \<longrightarrow>
      extract_video_data py_str video_item = Inr [])"
  using extract_video_data_defaults [of py_str video_item]
    extract_video_data_untitled [of video_item py_str]
  by (intro conjI impI) (erule conjunct1, erule conjunct2, assumption)

theorem extract_never_raises_defaults_witness:
  "\<exists>r. extract_video_data (\<lambda>v. []) (JObj [(''bvid'', JStr ''BV1xx''), (''like'', JNum 7)]) = Inr r \<and>
       r \<noteq> [] \<and>
       map_of r ''bvid'' = Some (JStr ''BV1xx'') \<and>
       map_of r ''like'' = Some (JNum 7) \<and>
       map_of r ''view'' = Some (JNum 0) \<and>
       map_of r ''description'' = Some (JStr []) \<and>
       map_of r ''title'' = Some (JStr []) \<and>
       map_of r ''author'' = Some (JStr [])"
proof -
  let ?d = "[(''bvid'', JStr ''BV1xx''), (''like'', JNum 7)]"
  let ?f = "\<lambda>v::json. []::string"
  have h: "JObj ?d = JObj ?d \<and>
           (map_of ?d ''title'' = None \<or> (\<exists>s. map_of ?d ''title'' = Some (JStr s)))"
    by simp
  from extract_never_raises_defaults [of ?f "JObj ?d", THEN conjunct2]
  have "\<forall>d. JObj ?d = JObj d \<and>
          (map_of d ''title'' = None \<or> (\<exists>s. map_of d ''title'' = Some (JStr s))) \<longrightarrow>
      (\<exists>r. extract_video_data ?f (JObj ?d) = Inr r \<and> r \<noteq> [] \<and>
           (\<forall>(field, key, dflt) \<in> set documented_defaults.
               map_of r field = Some (dict_get d key dflt) \<and>
               (map_of d key = None \<longrightarrow> map_of r field = Some dflt)) \<and>
           (map_of d ''title'' = None \<longrightarrow> map_of r ''title'' = Some (JStr [])) \<and>
           (map_of d ''author'' = None \<and> map_of d ''owner'' = None \<longrightarrow>
              map_of r ''author'' = Some (JStr [])))"
    by (rule conjunct1)
  then have "\<exists>r. extract_video_data ?f (JObj ?d) = Inr r \<and> r \<noteq> [] \<and>
           (\<forall>(field, key, dflt) \<in> set documented_defaults.
               map_of r field = Some (dict_get ?d key dflt) \<and>
               (map_of ?d key = None \<longrightarrow> map_of r field = Some dflt)) \<and>
           (map_of ?d ''title'' = None \<longrightarrow> map_of r ''title'' = Some (JStr [])) \<and>
           (map_of ?d ''author'' = None \<and> map_of ?d ''owner'' = None \<longrightarrow>
              map_of r ''author'' = Some (JStr []))"
    using h by (elim allE [of _ ?d] impE) assumption+
  then obtain r where r: "extract_video_data ?f (JObj ?d) = Inr r" and ne: "r \<noteq> []"
    and f: "\<forall>(field, key, dflt) \<in> set documented_defaults.
               map_of r field = Some (dict_get ?d key dflt) \<and>
               (map_of ?d key = None \<longrightarrow> map_of r field = Some dflt)"
    and t: "map_of ?d ''title'' = None \<longrightarrow> map_of r ''title'' = Some (JStr [])"
    and a: "map_of ?d ''author'' = None \<and> map_of ?d ''owner'' = None \<longrightarrow>
              map_of r ''author'' = Some (JStr [])"
    by (elim exE conjE)
  have m: "(''bvid'', ''bvid'', JStr []) \<in> set documented_defaults"
    "(''like'', ''like'', JNum 0) \<in> set documented_defaults"
    "(''view'', ''play'', JNum 0) \<in> set documented_defaults"
    "(''description'', ''description'', JStr []) \<in> set documented_defaults"
    by (simp_all add: documented_defaults_def)
  have 1: "map_of r ''bvid'' = Some (JStr ''BV1xx'')"
    using bspec [OF f m(1)] by (simp add: dict_get_def)
  have 2: "map_of r ''like'' = Some (JNum 7)"
    using bspec [OF f m(2)] by (simp add: dict_get_def)
  have 3: "map_of r ''view'' = Some (JNum 0)"
    using bspec [OF f m(3)] by (simp add: dict_get_def)
  have 4: "map_of r ''description'' = Some (JStr [])"
    using bspec [OF f m(4)] by (simp add: dict_get_def)
  have 5: "map_of r ''title'' = Some (JStr [])"
    using t by simp
  have 6: "map_of r ''author'' = Some (JStr [])"
    using a by simp
  show ?thesis
    by (intro exI [of _ r] conjI r ne 1 2 3 4 5 6)
qed

text \<open>
  C7, which does not hold as stated: when the item has both a flat \<^verbatim>\<open>author\<close> and a nested
  \<^verbatim>\<open>owner\<close> with a \<^verbatim>\<open>name\<close>, the extracted author is the flat one.
\<close>

theorem author_nested_preferred_counterexample:
  "map_of (projr (extract_video_data (\<lambda>v. [])
      (JObj [(''author'', JStr ''flat''), (''owner'', JObj [(''name'', JStr ''nested'')])])))
     ''author'' = Some (JStr ''flat'') \<and>
   map_of (projr (extract_video_data (\<lambda>v. [])
      (JObj [(''author'', JStr ''flat''), (''owner'', JObj [(''name'', JStr ''nested'')])])))
     ''author'' \<noteq> Some (JStr ''nested'')"
  by (simp add: extract_video_data_def bind_exn_def extract_author_def dict_get_def)

text \<open>
  C7, amended. On an item whose title is absent or a string, the author is the flat
  \<^verbatim>\<open>author\<close> field whenever the item has it (also when a nested owner is present); the
  name of the nested owner when only that is present; the empty string when neither is.
\<close>

theorem author_flat_preferred:
  assumes "map_of d ''title'' = None \<or> (\<exists>s. map_of d ''title'' = Some (JStr s))"
  shows "\<exists>r. extract_video_data py_str (JObj d) = Inr r \<and>
           (\<forall>a. map_of d ''author'' = Some a \<longrightarrow> map_of r ''author'' = Some a) \<and>
           (\<forall>fs n. map_of d ''author'' = None \<and> map_of d ''owner'' = Some (JObj fs) \<and>
                   map_of fs ''name'' = Some n \<longrightarrow> map_of r ''author'' = Some n) \<and>
           (map_of d ''author'' = None \<and> map_of d ''owner'' = None \<longrightarrow>
              map_of r ''author'' = Some (JStr []))"
proof -
  from assms obtain t where t: "clean_title (dict_get d ''title'' (JStr [])) = Inr (JStr t)"
    using clean_title_ok [of d] by auto
  from extract_video_data_fields [OF t, of py_str]
  obtain r where r: "extract_video_data py_str (JObj d) = Inr r"
    and ra: "map_of r ''author'' = Some (extract_author py_str d)"
    by blast
  show ?thesis
    using r ra by (auto simp: extract_author_def dict_get_def)
qed

theorem author_flat_preferred_witness:
  "\<exists>r. extract_video_data (\<lambda>v. [])
          (JObj [(''author'', JStr ''flat''), (''owner'', JObj [(''name'', JStr ''nested'')])]) = Inr r \<and>
       map_of r ''author'' = Some (JStr ''flat'')"
proof -
  let ?d = "[(''author'', JStr ''flat''), (''owner'', JObj [(''name'', JStr ''nested'')])]"
  have h: "map_of ?d ''title'' = None \<or> (\<exists>s. map_of ?d ''title'' = Some (JStr s))"
    by simp
  from author_flat_preferred [OF h, of "\<lambda>v. []"]
  obtain r where r: "extract_video_data (\<lambda>v. []) (JObj ?d) = Inr r"
    and a: "\<forall>a. map_of ?d ''author'' = Some a \<longrightarrow> map_of r ''author'' = Some a"
    by (elim exE conjE)
  have "map_of r ''author'' = Some (JStr ''flat'')"
    using a by simp
  with r show ?thesis
    by (intro exI [of _ r] conjI)
qed

section \<open>Properties of the fetch client\<close>

lemma find_video_group_objects:
  "find_video_group (map JObj groups) =
     Inr (map_option (\<lambda>g. dict_get g ''data'' (JList [])) (find video_group groups))"
  by (induction groups) (simp_all add: bind_exn_def video_group_def)

text \<open>
  C6. A request error, a body that is not JSON and a non-zero application code give the
  empty dictionary, the failure result. A response with code 0 whose \<^verbatim>\<open>data\<close> is a
  dictionary gives a \<^verbatim>\<open>result\<close> list: with no \<^verbatim>\<open>result\<close> key the empty list; with a list
  of groups the items of the first group tagged \<^verbatim>\<open>video\<close>, else the items of the first
  group, else (no groups) the empty list.
\<close>

theorem search_response_video_group:
  "search_response RequestException = Inr (JObj []) \<and>
   search_response JSONDecodeError = Inr (JObj []) \<and>
   (\<not> eq_zero (dict_get body ''code'' JNull) \<longrightarrow>
      search_response (Body (JObj body)) = Inr (JObj [])) \<and>
   (eq_zero (dict_get body ''code'' JNull) \<and>
    dict_get body ''data'' (JObj []) = JObj result_data \<longrightarrow>
      (map_of result_data ''result'' = None \<longrightarrow>
         search_response (Body (JObj body)) = Inr (JObj [(''result'', JList [])])) \<and>
      (map_of result_data ''result'' = Some (JList (map JObj groups)) \<longrightarrow>
         search_response (Body (JObj body)) =
           Inr (JObj [(''result'',
             (case find video_group groups of
                Some g \<Rightarrow> dict_get g ''data'' (JList [])
              | None \<Rightarrow>
                  (case groups of
                     [] \<Rightarrow> JList []
                   | g # rest \<Rightarrow> dict_get g ''data'' (JList []))))])))"
proof (intro conjI impI)
  show "search_response RequestException = Inr (JObj [])"
    by (simp add: search_response_def)
  show "search_response JSONDecodeError = Inr (JObj [])"
    by (simp add: search_response_def)
  show "search_response (Body (JObj body)) = Inr (JObj [])"
    if "\<not> eq_zero (dict_get body ''code'' JNull)"
    using that by (simp add: search_response_def bind_exn_def)
next
  assume a: "eq_zero (dict_get body ''code'' JNull) \<and>
    dict_get body ''data'' (JObj []) = JObj result_data"
  show "search_response (Body (JObj body)) = Inr (JObj [(''result'', JList [])])"
    if "map_of result_data ''result'' = None"
    using a that by (simp add: search_response_def bind_exn_def)
  show "search_response (Body (JObj body)) =
           Inr (JObj [(''result'',
             (case find video_group groups of
                Some g \<Rightarrow> dict_get g ''data'' (JList [])
              | None \<Rightarrow>
                  (case groups of
                     [] \<Rightarrow> JList []
                   | g # rest \<Rightarrow> dict_get g ''data'' (JList []))))])"
    if "map_of result_data ''result'' = Some (JList (map JObj groups))"
    using a that
    by (cases groups)
       (simp_all add: search_response_def bind_exn_def find_video_group_objects
          video_group_def split: option.splits)
qed

theorem search_response_video_group_witness:
  "search_response (Body (JObj
      [(''code'', JNum 0), (''message'', JStr ''0''),
       (''data'', JObj [(''result'', JList
          [JObj [(''result_type'', JStr ''bili_user''), (''data'', JList [JNum 1])],
           JObj [(''result_type'', JStr ''video''),
                 (''data'', JList [JObj [(''bvid'', JStr ''BV1'')]])]])])])) =
   Inr (JObj [(''result'', JList [JObj [(''bvid'', JStr ''BV1'')]])]) \<and>
   search_response (Body (JObj [(''code'', JNum (- 412)), (''message'', JStr ''banned'')])) =
   Inr (JObj [])"
proof -
  let ?groups = "[[(''result_type'', JStr ''bili_user''), (''data'', JList [JNum 1])],
                  [(''result_type'', JStr ''video''),
                   (''data'', JList [JObj [(''bvid'', JStr ''BV1'')]])]]"
  let ?rd = "[(''result'', JList (map JObj ?groups))]"
  let ?body = "[(''code'', JNum 0), (''message'', JStr ''0''), (''data'', JObj ?rd)]"
  let ?bad = "[(''code'', JNum (- 412)), (''message'', JStr ''banned'')]"
  have 1: "eq_zero (dict_get ?body ''code'' JNull) \<and>
           dict_get ?body ''data'' (JObj []) = JObj ?rd"
    by (simp add: dict_get_def)
  have 2: "map_of ?rd ''result'' = Some (JList (map JObj ?groups))"
    by simp
  have 3: "\<not> eq_zero (dict_get ?bad ''code'' JNull)"
    by (simp add: dict_get_def)
  show ?thesis
    using search_response_video_group [of ?body ?rd ?groups] 1 2
      search_response_video_group [of ?bad "[]" "[]"] 3
    by (simp add: video_group_def dict_get_def)
qed

section \<open>Properties of the enrichment loop\<close>

lemma enhance_row_None_iff: "enhance_row net row = Inr None \<longleftrightarrow> falsy_bvid row"
  by (auto simp: enhance_row_def falsy_bvid_def bind_exn_def
           split: option.splits sum.splits)

lemma enhance_rows_map:
  "enhance_rows net rows acc =
     acc @ map (enhanced_or_kept net) (filter (\<lambda>row. \<not> falsy_bvid row) rows)"
proof (induction rows arbitrary: acc)
  case Nil
  then show ?case by simp
next
  case (Cons row rows)
  show ?case
  proof (cases "enhance_row net row")
    case (Inl e)
    then have "\<not> falsy_bvid row"
      using enhance_row_None_iff [of net row] by simp
    with Inl Cons show ?thesis
      by (simp add: enhanced_or_kept_def)
  next
    case (Inr res)
    show ?thesis
    proof (cases res)
      case None
      with Inr have "falsy_bvid row"
        using enhance_row_None_iff [of net row] by simp
      with Inr None Cons show ?thesis
        by simp
    next
      case (Some enhanced_row)
      with Inr have "\<not> falsy_bvid row"
        using enhance_row_None_iff [of net row] by simp
      with Inr Some Cons show ?thesis
        by (simp add: enhanced_or_kept_def)
    qed
  qed
qed

lemma map_of_dict_update:
  "map_of (dict_update d other) k =
     (case map_of (rev other) k of Some v \<Rightarrow> Some v | None \<Rightarrow> map_of d k)"
proof (induction other arbitrary: d)
  case Nil
  then show ?case by (simp add: dict_update_def)
next
  case (Cons x xs)
  have "dict_update d (x # xs) = dict_update (dict_set (fst x) (snd x) d) xs"
    by (simp add: dict_update_def)
  then show ?case
    using Cons [of "dict_set (fst x) (snd x) d"]
    by (cases x) (auto simp: dict_set_def update_conv' map_add_def split: option.splits)
qed

lemma enhance_row_failed:
  assumes "map_of row ''bvid'' = Some bvid" and "truthy bvid"
    and "(\<exists>e. get_video_info net bvid = Inl e) \<or>
         (\<exists>v. get_video_info net bvid = Inr v \<and> \<not> truthy v)"
  shows "enhanced_or_kept net row = row"
  using assms by (auto simp: enhanced_or_kept_def enhance_row_def bind_exn_def)

lemma detail_fields_ok:
  assumes "dict_get info ''stat'' (JObj []) = JObj stat"
    and "dict_get info ''owner'' (JObj []) = JObj owner"
    and "\<forall>k \<in> set row_columns. map_of row k = Some (old k)"
  shows "detail_fields (JObj info) row = Inr
    [(''view'', dict_get stat ''view'' (old ''view'')),
     (''danmaku'', dict_get stat ''danmaku'' (old ''danmaku'')),
     (''reply'', dict_get stat ''reply'' (old ''reply'')),
     (''favorite'', dict_get stat ''favorite'' (old ''favorite'')),
     (''coin'', dict_get stat ''coin'' (old ''coin'')),
     (''like'', dict_get stat ''like'' (old ''like'')),
     (''share'', dict_get stat ''share'' (old ''share'')),
     (''duration_seconds'', dict_get info ''duration'' (JNum 0)),
     (''cid'', dict_get info ''cid'' (JNum 0)),
     (''pages'', dict_get info ''pages'' (JNum 1)),
     (''owner_name'', dict_get owner ''name'' (old ''author'')),
     (''owner_mid'', dict_get owner ''mid'' (old ''mid'')),
     (''owner_face'', dict_get owner ''face'' (JStr [])),
     (''tname'', dict_get info ''tname'' (old ''typename'')),
     (''copyright'', dict_get info ''copyright'' (JNum 0)),
     (''desc'', dict_get info ''desc'' (old ''description'')),
     (''dynamic'', dict_get info ''dynamic'' (JStr [])),
     (''subtitle'', dict_get info ''subtitle'' (JObj [])),
     (''staff'', dict_get info ''staff'' (JList [])),
     (''argue_info'', dict_get info ''argue_info'' (JObj [])),
     (''honor_reply'', dict_get info ''honor_reply'' (JObj []))]"
  using assms
  by (simp add: detail_fields_def nested_get_def get_or_def bind_exn_def row_columns_def
        counters_def)

lemma enhance_row_enriched:
  assumes b: "map_of row ''bvid'' = Some bvid" "truthy bvid"
    and g: "get_video_info net bvid = Inr (JObj info)" "info \<noteq> []"
    and s: "dict_get info ''stat'' (JObj []) = JObj stat"
    and ow: "dict_get info ''owner'' (JObj []) = JObj owner"
    and r: "\<forall>k \<in> set row_columns. map_of row k = Some (old k)"
  shows "(\<forall>k \<in> set counters.
            map_of (enhanced_or_kept net row) k = Some (dict_get stat k (old k))) \<and>
         (\<forall>k. k \<notin> set detail_keys \<longrightarrow> map_of (enhanced_or_kept net row) k = map_of row k)"
proof -
  from detail_fields_ok [OF s ow r] obtain fields where
    f: "detail_fields (JObj info) row = Inr fields"
    and fe: "fields =
    [(''view'', dict_get stat ''view'' (old ''view'')),
     (''danmaku'', dict_get stat ''danmaku'' (old ''danmaku'')),
     (''reply'', dict_get stat ''reply'' (old ''reply'')),
     (''favorite'', dict_get stat ''favorite'' (old ''favorite'')),
     (''coin'', dict_get stat ''coin'' (old ''coin'')),
     (''like'', dict_get stat ''like'' (old ''like'')),
     (''share'', dict_get stat ''share'' (old ''share'')),
     (''duration_seconds'', dict_get info ''duration'' (JNum 0)),
     (''cid'', dict_get info ''cid'' (JNum 0)),
     (''pages'', dict_get info ''pages'' (JNum 1)),
     (''owner_name'', dict_get owner ''name'' (old ''author'')),
     (''owner_mid'', dict_get owner ''mid'' (old ''mid'')),
     (''owner_face'', dict_get owner ''face'' (JStr [])),
     (''tname'', dict_get info ''tname'' (old ''typename'')),
     (''copyright'', dict_get info ''copyright'' (JNum 0)),
     (''desc'', dict_get info ''desc'' (old ''description'')),
     (''dynamic'', dict_get info ''dynamic'' (JStr [])),
     (''subtitle'', dict_get info ''subtitle'' (JObj [])),
     (''staff'', dict_get info ''staff'' (JList [])),
     (''argue_info'', dict_get info ''argue_info'' (JObj [])),
     (''honor_reply'', dict_get info ''honor_reply'' (JObj []))]"
    by simp
  have e: "enhanced_or_kept net row = dict_update row fields"
    using b g f by (simp add: enhanced_or_kept_def enhance_row_def bind_exn_def)
  have c: "\<forall>k \<in> set counters. map_of (rev fields) k = Some (dict_get stat k (old k))"
    unfolding fe by (simp add: counters_def)
  have d: "\<forall>k. k \<notin> set detail_keys \<longrightarrow> map_of (rev fields) k = None"
    unfolding fe by (simp add: detail_keys_def counters_def)
  show ?thesis
    using c d by (simp add: e map_of_dict_update)
qed

text \<open>
  C5, which does not hold as stated: a row whose \<^verbatim>\<open>bvid\<close> is empty is skipped and is not in
  the output, here next to a row whose detail call fails and which is kept as it was.
\<close>

theorem enhance_drops_empty_id_counterexample:
  "enhance_video_data
     \<lparr>search_api = (\<lambda>keyword page. RequestException),
      video_info_api = (\<lambda>bvid. RequestException)\<rparr>
     [[(''bvid'', JStr ''BV1''), (''view'', JNum 3)],
      [(''bvid'', JStr []), (''view'', JNum 4)]] =
   [[(''bvid'', JStr ''BV1''), (''view'', JNum 3)]] \<and>
   [(''bvid'', JStr []), (''view'', JNum 4)] \<notin> set (enhance_video_data
     \<lparr>search_api = (\<lambda>keyword page. RequestException),
      video_info_api = (\<lambda>bvid. RequestException)\<rparr>
     [[(''bvid'', JStr ''BV1''), (''view'', JNum 3)],
      [(''bvid'', JStr []), (''view'', JNum 4)]])"
  by (simp add: enhance_video_data_def enhance_row_def get_video_info_def bind_exn_def)

text \<open>
  C5, amended. The output has, in the order of the input, one row for each input row
  whose \<^verbatim>\<open>bvid\<close> is not falsy. For such a row, when the detail call fails (it raises, or
  returns an empty result) the output row is the input row unchanged; when it returns a
  non-empty dictionary whose \<^verbatim>\<open>stat\<close> and \<^verbatim>\<open>owner\<close> are dictionaries (or absent), each
  engagement counter of the output row is the value of \<^verbatim>\<open>stat\<close>, or the row's prior value
  when \<^verbatim>\<open>stat\<close> lacks it, and every key that the update does not write keeps its value.
\<close>

theorem enhance_video_data_keeps_rows:
  "enhance_video_data net df =
     map (enhanced_or_kept net) (filter (\<lambda>row. \<not> falsy_bvid row) df) \<and>
   (\<forall>row bvid. map_of row ''bvid'' = Some bvid \<and> truthy bvid \<longrightarrow>
      ((\<exists>e. get_video_info net bvid = Inl e) \<or>
       (\<exists>v. get_video_info net bvid = Inr v \<and> \<not> truthy v) \<longrightarrow>
         enhanced_or_kept net row = row) \<and>
      (\<forall>info stat owner old.
          get_video_info net bvid = Inr (JObj info) \<and> info \<noteq> [] \<and>
          dict_get info ''stat'' (JObj []) = JObj stat \<and>
          dict_get info ''owner'' (JObj []) = JObj owner \<and>
          (\<forall>k \<in> set row_columns. map_of row k = Some (old k)) \<longrightarrow>
          (\<forall>k \<in> set counters.
              map_of (enhanced_or_kept net row) k = Some (dict_get stat k (old k))) \<and>
          (\<forall>k. k \<notin> set detail_keys \<longrightarrow>
              map_of (enhanced_or_kept net row) k = map_of row k)))"
proof (intro conjI allI impI)
  show "enhance_video_data net df =
     map (enhanced_or_kept net) (filter (\<lambda>row. \<not> falsy_bvid row) df)"
    by (simp add: enhance_video_data_def enhance_rows_map)
next
  fix row bvid
  assume a: "map_of row ''bvid'' = Some bvid \<and> truthy bvid"
  show "enhanced_or_kept net row = row"
    if "(\<exists>e. get_video_info net bvid = Inl e) \<or>
        (\<exists>v. get_video_info net bvid = Inr v \<and> \<not> truthy v)"
    using a that enhance_row_failed [of row bvid net] by blast
next
  fix row bvid info stat owner old
  assume a: "map_of row ''bvid'' = Some bvid \<and> truthy bvid"
  assume h: "get_video_info net bvid = Inr (JObj info) \<and> info \<noteq> [] \<and>
          dict_get info ''stat'' (JObj []) = JObj stat \<and>
          dict_get info ''owner'' (JObj []) = JObj owner \<and>
          (\<forall>k \<in> set row_columns. map_of row k = Some (old k))"
  from a have b1: "map_of row ''bvid'' = Some bvid" and b2: "truthy bvid"
    by simp_all
  from h have g1: "get_video_info net bvid = Inr (JObj info)" and g2: "info \<noteq> []"
    and s: "dict_get info ''stat'' (JObj []) = JObj stat"
    and ow: "dict_get info ''owner'' (JObj []) = JObj owner"
    and r: "\<forall>k \<in> set row_columns. map_of row k = Some (old k)"
    by simp_all
  have "(\<forall>k \<in> set counters.
            map_of (enhanced_or_kept net row) k = Some (dict_get stat k (old k))) \<and>
        (\<forall>k. k \<notin> set detail_keys \<longrightarrow> map_of (enhanced_or_kept net row) k = map_of row k)"
    by (rule enhance_row_enriched [OF b1 b2 g1 g2 s ow r])
  then have c: "\<forall>k \<in> set counters.
            map_of (enhanced_or_kept net row) k = Some (dict_get stat k (old k))"
    and d: "\<forall>k. k \<notin> set detail_keys \<longrightarrow> map_of (enhanced_or_kept net row) k = map_of row k"
    by simp_all
  show "\<forall>k \<in> set counters.
            map_of (enhanced_or_kept net row) k = Some (dict_get stat k (old k))"
    by (rule c)
  show "map_of (enhanced_or_kept net row) k = map_of row k" if "k \<notin> set detail_keys" for k
    using d that by simp
qed

theorem enhance_video_data_keeps_rows_witness:
  "let mk = (\<lambda>b. [(''bvid'', JStr b), (''view'', JNum 1), (''danmaku'', JNum 0),
                    (''reply'', JNum 0), (''favorite'', JNum 0), (''coin'', JNum 0),
                    (''like'', JNum 0), (''share'', JNum 0), (''author'', JStr ''a''),
                    (''mid'', JNum 1), (''typename'', JStr ''t''), (''description'', JStr ''d'')]);
       net = \<lparr>search_api = (\<lambda>keyword page. RequestException),
              video_info_api = (\<lambda>b. if b = JStr ''BV3'' then RequestException
                 else Body (JObj [(''code'', JNum 0),
                        (''data'', JObj [(''stat'', JObj [(''view'', JNum 500)])])]))\<rparr>;
       out = enhance_video_data net (map mk [''BV1'', ''BV2'', ''BV3'', ''BV4'', ''BV5''])
   in length out = 5 \<and> out ! 2 = mk ''BV3'' \<and>
      map_of (out ! 0) ''view'' = Some (JNum 500) \<and>
      map_of (out ! 0) ''bvid'' = Some (JStr ''BV1'')"
proof -
  define mk where "mk = (\<lambda>b. [(''bvid'', JStr b), (''view'', JNum 1), (''danmaku'', JNum 0),
                    (''reply'', JNum 0), (''favorite'', JNum 0), (''coin'', JNum 0),
                    (''like'', JNum 0), (''share'', JNum 0), (''author'', JStr ''a''),
                    (''mid'', JNum 1), (''typename'', JStr ''t''), (''description'', JStr ''d'')])"
  define net where "net = \<lparr>search_api = (\<lambda>keyword page. RequestException),
              video_info_api = (\<lambda>b. if b = JStr ''BV3'' then RequestException
                 else Body (JObj [(''code'', JNum 0),
                        (''data'', JObj [(''stat'', JObj [(''view'', JNum 500)])])]))\<rparr>"
  define old where "old = (\<lambda>k. dict_get (mk ''BV1'') k JNull)"
  let ?info = "[(''stat'', JObj [(''view'', JNum 500)])]"
  let ?stat = "[(''view'', JNum 500)]"
  note inst = enhance_video_data_keeps_rows
    [of net "map mk [''BV1'', ''BV2'', ''BV3'', ''BV4'', ''BV5'']"]
  have nf: "\<not> falsy_bvid (mk b)" if "b \<noteq> []" for b
    using that by (simp add: falsy_bvid_def mk_def)
  from inst have out: "enhance_video_data net (map mk [''BV1'', ''BV2'', ''BV3'', ''BV4'', ''BV5'']) =
      map (enhanced_or_kept net) (map mk [''BV1'', ''BV2'', ''BV3'', ''BV4'', ''BV5''])"
    by (simp add: nf)
  from inst have rest: "\<forall>row bvid. map_of row ''bvid'' = Some bvid \<and> truthy bvid \<longrightarrow>
      ((\<exists>e. get_video_info net bvid = Inl e) \<or>
       (\<exists>v. get_video_info net bvid = Inr v \<and> \<not> truthy v) \<longrightarrow>
         enhanced_or_kept net row = row) \<and>
      (\<forall>info stat owner old.
          get_video_info net bvid = Inr (JObj info) \<and> info \<noteq> [] \<and>
          dict_get info ''stat'' (JObj []) = JObj stat \<and>
          dict_get info ''owner'' (JObj []) = JObj owner \<and>
          (\<forall>k \<in> set row_columns. map_of row k = Some (old k)) \<longrightarrow>
          (\<forall>k \<in> set counters.
              map_of (enhanced_or_kept net row) k = Some (dict_get stat k (old k))) \<and>
          (\<forall>k. k \<notin> set detail_keys \<longrightarrow>
              map_of (enhanced_or_kept net row) k = map_of row k))"
    by (rule conjunct2)
  have b3: "map_of (mk ''BV3'') ''bvid'' = Some (JStr ''BV3'') \<and> truthy (JStr ''BV3'')"
    by (simp add: mk_def)
  have f3: "get_video_info net (JStr ''BV3'') = Inr (JObj []) \<and> \<not> truthy (JObj [])"
    by (simp add: get_video_info_def net_def)
  have k3: "enhanced_or_kept net (mk ''BV3'') = mk ''BV3''"
    using rest b3 f3 by blast
  have b1: "map_of (mk ''BV1'') ''bvid'' = Some (JStr ''BV1'') \<and> truthy (JStr ''BV1'')"
    by (simp add: mk_def)
  have g1: "get_video_info net (JStr ''BV1'') = Inr (JObj ?info) \<and> ?info \<noteq> [] \<and>
          dict_get ?info ''stat'' (JObj []) = JObj ?stat \<and>
          dict_get ?info ''owner'' (JObj []) = JObj [] \<and>
          (\<forall>k \<in> set row_columns. map_of (mk ''BV1'') k = Some (old k))"
    by (simp add: get_video_info_def net_def bind_exn_def dict_get_def row_columns_def
          counters_def old_def mk_def)
  from rest b1 have "\<forall>info stat owner old.
          get_video_info net (JStr ''BV1'') = Inr (JObj info) \<and> info \<noteq> [] \<and>
          dict_get info ''stat'' (JObj []) = JObj stat \<and>
          dict_get info ''owner'' (JObj []) = JObj owner \<and>
          (\<forall>k \<in> set row_columns. map_of (mk ''BV1'') k = Some (old k)) \<longrightarrow>
          (\<forall>k \<in> set counters.
              map_of (enhanced_or_kept net (mk ''BV1'')) k = Some (dict_get stat k (old k))) \<and>
          (\<forall>k. k \<notin> set detail_keys \<longrightarrow>
              map_of (enhanced_or_kept net (mk ''BV1'')) k = map_of (mk ''BV1'') k)"
    by blast
  with g1 have e1: "(\<forall>k \<in> set counters.
              map_of (enhanced_or_kept net (mk ''BV1'')) k = Some (dict_get ?stat k (old k))) \<and>
          (\<forall>k. k \<notin> set detail_keys \<longrightarrow>
              map_of (enhanced_or_kept net (mk ''BV1'')) k = map_of (mk ''BV1'') k)"
    by blast
  have v1: "map_of (enhanced_or_kept net (mk ''BV1'')) ''view'' = Some (JNum 500)"
    using e1 by (simp add: counters_def dict_get_def)
  have i1: "map_of (enhanced_or_kept net (mk ''BV1'')) ''bvid'' = Some (JStr ''BV1'')"
    using e1 by (simp add: detail_keys_def counters_def mk_def)
  have "length (enhance_video_data net (map mk [''BV1'', ''BV2'', ''BV3'', ''BV4'', ''BV5''])) = 5 \<and>
      enhance_video_data net (map mk [''BV1'', ''BV2'', ''BV3'', ''BV4'', ''BV5'']) ! 2 = mk ''BV3'' \<and>
      map_of (enhance_video_data net (map mk [''BV1'', ''BV2'', ''BV3'', ''BV4'', ''BV5'']) ! 0) ''view''
        = Some (JNum 500) \<and>
      map_of (enhance_video_data net (map mk [''BV1'', ''BV2'', ''BV3'', ''BV4'', ''BV5'']) ! 0) ''bvid''
        = Some (JStr ''BV1'')"
    using out by (simp add: k3 v1 i1)
  then show ?thesis
    unfolding Let_def mk_def net_def .
qed

section \<open>Properties of the collection loop and the deduplication\<close>

lemma set_drop_duplicates_last: "set (drop_duplicates_last key xs) \<subseteq> set xs"
  by (induction xs) auto

lemma keys_drop_duplicates_last: "key ` set (drop_duplicates_last key xs) = key ` set xs"
  by (induction xs) auto

lemma distinct_drop_duplicates_last: "distinct (map key (drop_duplicates_last key xs))"
proof (induction xs)
  case Nil
  then show ?case by simp
next
  case (Cons x xs)
  have "key x \<notin> key ` set (drop_duplicates_last key xs)" if "key x \<notin> key ` set xs"
    using that by (simp add: keys_drop_duplicates_last)
  with Cons show ?case by auto
qed

lemma drop_duplicates_last_snoc:
  "drop_duplicates_last key (xs @ [x]) =
     filter (\<lambda>y. key y \<noteq> key x) (drop_duplicates_last key xs) @ [x]"
  by (induction xs) auto

lemma last_occurrence_survives:
  "key r \<notin> key ` set post \<Longrightarrow> r \<in> set (drop_duplicates_last key (pre @ r # post))"
  by (induction pre) auto

lemma survivor_is_latest:
  assumes "sorted_wrt (\<lambda>a b. f a \<le> (f b :: real)) xs"
    and "r \<in> set (drop_duplicates_last key xs)" and "r' \<in> set xs" and "key r' = key r"
  shows "f r' \<le> f r"
  using assms
proof (induction xs)
  case Nil
  then show ?case by simp
next
  case (Cons x xs)
  have sub: "set (drop_duplicates_last key xs) \<subseteq> set xs"
    by (rule set_drop_duplicates_last)
  from Cons.prems(1) have later: "\<forall>y \<in> set xs. f x \<le> f y" and s: "sorted_wrt (\<lambda>a b. f a \<le> f b) xs"
    by simp_all
  show ?case
  proof (cases "key x \<in> set (map key xs)")
    case True
    with Cons.prems have r: "r \<in> set (drop_duplicates_last key xs)"
      by simp
    show ?thesis
    proof (cases "r' = x")
      case True
      with r sub later show ?thesis by auto
    next
      case False
      with Cons.prems have "r' \<in> set xs" by simp
      with Cons.IH s r Cons.prems(4) show ?thesis by simp
    qed
  next
    case False
    with Cons.prems have r: "r = x \<or> r \<in> set (drop_duplicates_last key xs)"
      by simp
    then show ?thesis
    proof
      assume rx: "r = x"
      have "r' \<notin> set xs"
      proof
        assume "r' \<in> set xs"
        then have "key r' \<in> key ` set xs" by (rule imageI)
        with False rx Cons.prems(4) show False by simp
      qed
      with Cons.prems(3) have "r' = x"
        by simp
      with rx show ?thesis by simp
    next
      assume r: "r \<in> set (drop_duplicates_last key xs)"
      show ?thesis
      proof (cases "r' = x")
        case True
        with r sub later show ?thesis by auto
      next
        case False
        with Cons.prems have "r' \<in> set xs" by simp
        with Cons.IH s r Cons.prems(4) show ?thesis by simp
      qed
    qed
  qed
qed

lemma stamped_Nil: "stamped clock lo hi []"
  by (simp add: stamped_def)

lemma stamped_append:
  assumes m: "mono clock"
    and x: "stamped clock lo mid xs" and y: "stamped clock mid hi ys"
    and le: "lo \<le> mid" "mid \<le> hi"
  shows "stamped clock lo hi (xs @ ys)"
proof -
  have cross: "collected_at a \<le> collected_at b" if "a \<in> set xs" "b \<in> set ys" for a b
  proof -
    from x that(1) obtain k where k: "k < mid" "collected_at a = real_of_int (clock k)"
      by (auto simp: stamped_def)
    from y that(2) obtain j where j: "mid \<le> j" "collected_at b = real_of_int (clock j)"
      by (auto simp: stamped_def)
    from k(1) j(1) have "k \<le> j" by simp
    with m have "clock k \<le> clock j" by (rule monoD)
    with k(2) j(2) show ?thesis by simp
  qed
  have bounds: "\<exists>k. lo \<le> k \<and> k < hi \<and> collected_at r = real_of_int (clock k)"
    if "r \<in> set (xs @ ys)" for r
  proof (cases "r \<in> set xs")
    case True
    with x obtain k where "lo \<le> k" "k < mid" "collected_at r = real_of_int (clock k)"
      by (auto simp: stamped_def)
    with le show ?thesis by (intro exI [of _ k]) simp
  next
    case False
    with that have "r \<in> set ys" by simp
    with y obtain k where "mid \<le> k" "k < hi" "collected_at r = real_of_int (clock k)"
      by (auto simp: stamped_def)
    with le show ?thesis by (intro exI [of _ k]) simp
  qed
  from x y cross bounds show ?thesis
    by (simp add: stamped_def sorted_wrt_append)
qed

lemma stamped_filter: "stamped clock lo hi xs \<Longrightarrow> stamped clock lo hi (filter P xs)"
  by (auto simp: stamped_def sorted_wrt_filter)

lemma stamped_widen:
  "stamped clock lo hi xs \<Longrightarrow> lo' \<le> lo \<Longrightarrow> hi \<le> hi' \<Longrightarrow> stamped clock lo' hi' xs"
  unfolding stamped_def by (meson le_trans less_le_trans)

lemma collected_at_stamp: "collected_at (dict_set ''collected_at'' (JNum t) d) = t"
  by (simp add: collected_at_def dict_get_def dict_set_def update_conv')

lemma stamped_single:
  "stamped clock tick (Suc tick) [dict_set ''collected_at'' (JNum (real_of_int (clock tick))) d]"
  unfolding stamped_def
  by (simp add: collected_at_stamp) (rule exI [of _ tick], simp)

lemma collect_items_stamped:
  assumes "mono clock"
    and "collect_items py_str clock keyword items (tick, all_videos) = ((tick', all_videos'), e)"
  shows "\<exists>new. all_videos' = all_videos @ new \<and> tick \<le> tick' \<and> stamped clock tick tick' new"
  using assms(2)
proof (induction items arbitrary: tick all_videos)
  case Nil
  then show ?case by (simp add: stamped_Nil)
next
  case (Cons video_item rest)
  show ?case
  proof (cases "extract_video_data py_str video_item")
    case (Inl err)
    with Cons.prems show ?thesis by (simp add: stamped_Nil)
  next
    case (Inr video_data)
    show ?thesis
    proof (cases "video_data = []")
      case True
      with Inr Cons.prems have "collect_items py_str clock keyword rest (tick, all_videos) =
          ((tick', all_videos'), e)"
        by simp
      then show ?thesis by (rule Cons.IH)
    next
      case False
      let ?row = "dict_set ''collected_at'' (JNum (real_of_int (clock tick)))
                    (dict_set ''search_keyword'' (JStr keyword) video_data)"
      from False Inr Cons.prems
      have "collect_items py_str clock keyword rest (Suc tick, all_videos @ [?row]) =
          ((tick', all_videos'), e)"
        by simp
      from Cons.IH [OF this] obtain new where
        n: "all_videos' = (all_videos @ [?row]) @ new" "Suc tick \<le> tick'"
           "stamped clock (Suc tick) tick' new"
        by blast
      have "stamped clock tick tick' ([?row] @ new)"
        using assms(1) stamped_single n(3) _ n(2) by (rule stamped_append) simp
      with n show ?thesis
        by (intro exI [of _ "[?row] @ new"]) simp
    qed
  qed
qed

lemma collect_pages_stamped:
  "mono clock \<Longrightarrow>
   collect_pages py_str net clock max_results keyword max_pages page st = st' \<Longrightarrow>
   \<exists>new. snd st' = snd st @ new \<and> fst st \<le> fst st' \<and> stamped clock (fst st) (fst st') new"
proof (induction py_str net clock max_results keyword max_pages page st arbitrary: st'
       rule: collect_pages.induct)
  case (1 py_str net clock max_results keyword max_pages page st)
  note mono = "1.prems"(1)
  note run = "1.prems"(2)
  have same: "\<exists>new. snd st = snd st @ new \<and> fst st \<le> fst st \<and> stamped clock (fst st) (fst st) new"
    by (intro exI [of _ "[]"]) (simp add: stamped_Nil)
  show ?case
  proof (cases "page \<le> max_pages")
    case False
    with run have "st' = st"
      by (simp add: collect_pages.simps)
    with same show ?thesis by simp
  next
    case page: True
    show ?thesis
    proof (cases "page_items (search_videos net keyword page)")
      case None
      with page run have "st' = st"
        by (simp add: collect_pages.simps)
      with same show ?thesis by simp
    next
      case (Some items)
      obtain tick1 all1 e where
        ci: "collect_items py_str clock keyword items st = ((tick1, all1), e)"
        by (metis surj_pair)
      from collect_items_stamped [OF mono, of py_str keyword items "fst st" "snd st" tick1 all1 e] ci
      obtain new1 where n1: "all1 = snd st @ new1" "fst st \<le> tick1"
        "stamped clock (fst st) tick1 new1"
        by auto
      show ?thesis
      proof (cases "e = None \<and> \<not> length all1 \<ge> max_results")
        case False
        with page Some ci run have "st' = (tick1, all1)"
          by (auto simp: collect_pages.simps [of _ _ _ _ _ _ page] split: option.splits)
        with n1 show ?thesis by auto
      next
        case True
        with page Some ci run
        have rec: "collect_pages py_str net clock max_results keyword max_pages (Suc page)
                     (tick1, all1) = st'"
          by (simp add: collect_pages.simps [of _ _ _ _ _ _ page])
        from True have e: "e = None" and len: "\<not> max_results \<le> length (snd (tick1, all1))"
          by simp_all
        from "1.IH" [OF page Some ci [symmetric] e len mono rec]
        obtain new2 where n2: "snd st' = all1 @ new2" "tick1 \<le> fst st'"
          "stamped clock tick1 (fst st') new2"
          by auto
        have "stamped clock (fst st) (fst st') (new1 @ new2)"
          using mono n1(3) n2(3) n1(2) n2(2) by (rule stamped_append)
        with n1 n2 show ?thesis
          by (intro exI [of _ "new1 @ new2"]) simp
      qed
    qed
  qed
qed

lemma filter_by_date_loop_in_window:
  "filter_by_date_loop videos s e acc = Inr out \<Longrightarrow> out = acc @ filter (in_window s e) videos"
proof (induction videos arbitrary: acc)
  case Nil
  then show ?case by simp
next
  case (Cons v videos)
  show ?case
  proof (cases "effective_timestamp v")
    case (Inl err)
    with Cons.prems show ?thesis by simp
  next
    case (Inr t)
    show ?thesis
    proof (cases "real_of_int s \<le> t \<and> t \<le> real_of_int e")
      case True
      with Inr Cons.prems have "filter_by_date_loop videos s e (acc @ [v]) = Inr out"
        by simp
      from Cons.IH [OF this] True Inr show ?thesis
        by (simp add: in_window_def)
    next
      case False
      with Inr Cons.prems have "filter_by_date_loop videos s e acc = Inr out"
        by auto
      from Cons.IH [OF this] False Inr show ?thesis
        by (simp add: in_window_def)
    qed
  qed
qed

lemma collect_keyword_data_stamped:
  assumes "mono clock"
    and "collect_keyword_data py_str net clock cfg keyword max_pages tick = (tick', res)"
  shows "tick \<le> tick' \<and> (\<forall>keyword_data. res = Inr keyword_data \<longrightarrow>
           stamped clock tick tick' keyword_data)"
proof -
  obtain t1 all_videos where
    cp: "collect_pages py_str net clock (max_results_per_keyword cfg) keyword max_pages 1
           (tick, []) = (t1, all_videos)"
    by (metis surj_pair)
  from collect_pages_stamped [OF assms(1) cp]
  have le: "tick \<le> t1" and st: "stamped clock tick t1 all_videos"
    by auto
  from assms(2) cp have t: "tick' = t1"
    and r: "res = filter_by_date all_videos (start_timestamp cfg) (end_timestamp cfg)"
    by (simp_all add: collect_keyword_data_def)
  have "stamped clock tick tick' keyword_data" if "res = Inr keyword_data" for keyword_data
  proof -
    from that r have "filter_by_date_loop all_videos (start_timestamp cfg) (end_timestamp cfg) []
        = Inr keyword_data"
      by (simp add: filter_by_date_def)
    then have "keyword_data =
        [] @ filter (in_window (start_timestamp cfg) (end_timestamp cfg)) all_videos"
      by (rule filter_by_date_loop_in_window)
    with st t show ?thesis
      by (simp add: stamped_filter)
  qed
  with le t show ?thesis by simp
qed

lemma collect_keywords_stamped:
  assumes "mono clock"
    and "collect_keywords py_str net clock cfg kws (tick, all_data) = (tick', all_data')"
  shows "\<exists>new. all_data' = all_data @ new \<and> tick \<le> tick' \<and> stamped clock tick tick' new"
  using assms(2)
proof (induction kws arbitrary: tick all_data)
  case Nil
  then show ?case by (simp add: stamped_Nil)
next
  case (Cons keyword rest)
  obtain t1 res where
    kd: "collect_keyword_data py_str net clock cfg keyword 20 tick = (t1, res)"
    by (metis surj_pair)
  from collect_keyword_data_stamped [OF assms(1) kd]
  have le: "tick \<le> t1"
    and st: "\<forall>keyword_data. res = Inr keyword_data \<longrightarrow> stamped clock tick t1 keyword_data"
    by simp_all
  show ?case
  proof (cases res)
    case (Inl err)
    with kd Cons.prems
    have "collect_keywords py_str net clock cfg rest (t1, all_data) = (tick', all_data')"
      by simp
    from Cons.IH [OF this] obtain new where
      n: "all_data' = all_data @ new" "t1 \<le> tick'" "stamped clock t1 tick' new"
      by blast
    from n(3) le have "stamped clock tick tick' new"
      by (rule stamped_widen) simp
    with n le show ?thesis by auto
  next
    case (Inr keyword_data)
    with kd Cons.prems
    have "collect_keywords py_str net clock cfg rest (t1, all_data @ keyword_data) =
            (tick', all_data')"
      by simp
    from Cons.IH [OF this] obtain new where
      n: "all_data' = (all_data @ keyword_data) @ new" "t1 \<le> tick'" "stamped clock t1 tick' new"
      by blast
    from st Inr have "stamped clock tick t1 keyword_data"
      by simp
    with assms(1) have "stamped clock tick tick' (keyword_data @ new)"
      using n(3) le n(2) by (rule stamped_append)
    with n le show ?thesis
      by (intro exI [of _ "keyword_data @ new"]) simp
  qed
qed

lemma collected_rows_sorted:
  assumes "mono clock"
  shows "sorted_wrt (\<lambda>a b. collected_at a \<le> collected_at b)
           (collected_rows py_str net clock cfg)"
proof -
  obtain t rows where
    c: "collect_keywords py_str net clock cfg (search_keywords cfg) (0, []) = (t, rows)"
    by (metis surj_pair)
  from collect_keywords_stamped [OF assms c] have "stamped clock 0 t rows"
    by simp
  with c show ?thesis
    by (simp add: collected_rows_def stamped_def)
qed

text \<open>
  C3. When \<^verbatim>\<open>time.time()\<close> does not run backwards and the collected ids can be hashed (as
  strings can), \<^verbatim>\<open>collect_all_data\<close> returns rows with pairwise different ids, each of them
  a collected row, with every collected id present; the row collected last for an id is
  among them, and the surviving row of an id carries a \<^verbatim>\<open>collected_at\<close> at least that of
  every collected row with the same id.
\<close>

theorem dedup_keeps_last_collected:
  assumes "mono clock"
    and "list_all (\<lambda>row. hashable (dict_get row ''bvid'' JNull))
           (collected_rows py_str net clock cfg)"
  shows "\<exists>rows. collect_all_data py_str net clock cfg = Inr rows \<and>
           distinct (map bvid_key rows) \<and>
           set rows \<subseteq> set (collected_rows py_str net clock cfg) \<and>
           bvid_key ` set rows = bvid_key ` set (collected_rows py_str net clock cfg) \<and>
           (\<forall>pre r post. collected_rows py_str net clock cfg = pre @ r # post \<and>
                bvid_key r \<notin> bvid_key ` set post \<longrightarrow> r \<in> set rows) \<and>
           (\<forall>r \<in> set rows. \<forall>r' \<in> set (collected_rows py_str net clock cfg).
                bvid_key r' = bvid_key r \<longrightarrow> collected_at r' \<le> collected_at r)"
proof -
  let ?all = "collected_rows py_str net clock cfg"
  let ?rows = "drop_duplicates_last bvid_key ?all"
  have res: "collect_all_data py_str net clock cfg = Inr ?rows"
    using assms(2) by (cases ?all) (simp_all add: collect_all_data_def dedup_rows_def)
  have s: "sorted_wrt (\<lambda>a b. collected_at a \<le> collected_at b) ?all"
    using assms(1) by (rule collected_rows_sorted)
  have last: "\<forall>pre r post. ?all = pre @ r # post \<and> bvid_key r \<notin> bvid_key ` set post \<longrightarrow>
      r \<in> set ?rows"
    using last_occurrence_survives [of bvid_key] by metis
  have latest: "\<forall>r \<in> set ?rows. \<forall>r' \<in> set ?all.
      bvid_key r' = bvid_key r \<longrightarrow> collected_at r' \<le> collected_at r"
    using survivor_is_latest [OF s] by blast
  show ?thesis
    by (intro exI [of _ ?rows] conjI res distinct_drop_duplicates_last
          set_drop_duplicates_last keys_drop_duplicates_last last latest)
qed

theorem dedup_keeps_last_collected_witness:
  "let net = \<lparr>search_api = (\<lambda>keyword page.
                 if page = 1 then
                   Body (JObj [(''code'', JNum 0),
                     (''data'', JObj [(''result'', JList
                        [JObj [(''result_type'', JStr ''video''),
                               (''data'', JList [JObj [(''bvid'', JStr ''BV1''),
                                                      (''pubdate'', JNum 50)]])]])])])
                 else RequestException),
              video_info_api = (\<lambda>bvid. RequestException)\<rparr>;
       cfg = \<lparr>search_keywords = [''k1'', ''k2''], start_timestamp = 0, end_timestamp = 100,
              max_results_per_keyword = 1000\<rparr>;
       clock = (\<lambda>n. int n + 7);
       summary = map (\<lambda>r. (dict_get r ''bvid'' JNull, dict_get r ''search_keyword'' JNull,
                            collected_at r))
   in summary (collected_rows (\<lambda>v. []) net clock cfg) =
        [(JStr ''BV1'', JStr ''k1'', 7), (JStr ''BV1'', JStr ''k2'', 8)] \<and>
      (\<exists>rows. collect_all_data (\<lambda>v. []) net clock cfg = Inr rows \<and>
              distinct (map bvid_key rows) \<and>
              summary rows = [(JStr ''BV1'', JStr ''k2'', 8)])"
proof -
  define net where "net = \<lparr>search_api = (\<lambda>(keyword :: string) (page :: nat).
                 if page = 1 then
                   Body (JObj [(''code'', JNum 0),
                     (''data'', JObj [(''result'', JList
                        [JObj [(''result_type'', JStr ''video''),
                               (''data'', JList [JObj [(''bvid'', JStr ''BV1''),
                                                      (''pubdate'', JNum 50)]])]])])])
                 else RequestException),
              video_info_api = (\<lambda>bvid :: json. RequestException)\<rparr>"
  define cfg where "cfg = \<lparr>search_keywords = [''k1'', ''k2''], start_timestamp = 0,
              end_timestamp = 100, max_results_per_keyword = 1000\<rparr>"
  define clock where "clock = (\<lambda>n. int n + 7)"
  define f where "f = (\<lambda>v :: json. [] :: string)"
  define summary where "summary = map (\<lambda>r. (dict_get r ''bvid'' JNull,
       dict_get r ''search_keyword'' JNull, collected_at r))"
  have m: "mono clock"
    by (simp add: clock_def mono_def)
  have p1: "page_items (search_videos net k (Suc 0)) =
      Some [JObj [(''bvid'', JStr ''BV1''), (''pubdate'', JNum 50)]]" for k
    by (simp add: page_items_def search_videos_def search_response_def bind_exn_def net_def
          dict_get_def)
  have p2: "page_items (search_videos net k (Suc (Suc 0))) = None" for k
    by (simp add: page_items_def search_videos_def search_response_def net_def)
  define base where
    "base = projr (extract_video_data f (JObj [(''bvid'', JStr ''BV1''), (''pubdate'', JNum 50)]))"
  define row where "row = (\<lambda>k tick. dict_set ''collected_at'' (JNum (real_of_int (clock tick)))
          (dict_set ''search_keyword'' (JStr k) base))"
  have c: "search_keywords cfg = [''k1'', ''k2'']" "max_results_per_keyword cfg = 1000"
    "start_timestamp cfg = 0" "end_timestamp cfg = 100"
    by (simp_all add: cfg_def)
  have cp: "collect_pages f net clock 1000 k 20 (Suc 0) (tick, []) = (Suc tick, [row k tick])"
    for k tick
    by (simp add: collect_pages.simps [of _ _ _ _ _ _ "Suc 0"]
          collect_pages.simps [of _ _ _ _ _ _ "Suc (Suc 0)"]
          p1 p2 extract_video_data_def bind_exn_def dict_get_def row_def base_def)
  have bm: "map_of base ''pubdate'' = Some (JNum 50)" "map_of base ''bvid'' = Some (JStr ''BV1'')"
    by (simp_all add: base_def extract_video_data_def bind_exn_def dict_get_def)
  have rm: "dict_get (row k tick) ''pubdate'' (JNum 0) = JNum 50"
    "dict_get (row k tick) ''bvid'' JNull = JStr ''BV1''"
    "dict_get (row k tick) ''search_keyword'' JNull = JStr k"
    "collected_at (row k tick) = real_of_int (int tick + 7)" for k tick
    by (simp_all add: row_def dict_get_def dict_set_def update_conv' bm collected_at_def
          clock_def)
  have kd: "collect_keyword_data f net clock cfg k 20 tick = (Suc tick, Inr [row k tick])"
    for k tick
    by (simp add: collect_keyword_data_def cp c filter_by_date_def effective_timestamp_def rm)
  have rows: "collected_rows f net clock cfg = [row ''k1'' 0, row ''k2'' (Suc 0)]"
    by (simp add: collected_rows_def c kd)
  have ev: "summary (collected_rows f net clock cfg) =
        [(JStr ''BV1'', JStr ''k1'', 7), (JStr ''BV1'', JStr ''k2'', 8)]"
    and h: "list_all (\<lambda>row. hashable (dict_get row ''bvid'' JNull))
           (collected_rows f net clock cfg)"
    and dd: "summary (drop_duplicates_last bvid_key (collected_rows f net clock cfg)) =
        [(JStr ''BV1'', JStr ''k2'', 8)]"
    by (simp_all add: summary_def rows rm bvid_key_def)
  from dedup_keeps_last_collected [OF m h] obtain rows where
    r: "collect_all_data f net clock cfg = Inr rows" and d: "distinct (map bvid_key rows)"
    by blast
  from h have "collect_all_data f net clock cfg =
      Inr (drop_duplicates_last bvid_key (collected_rows f net clock cfg))"
    by (cases "collected_rows f net clock cfg") (simp_all add: collect_all_data_def dedup_rows_def)
  with r have "rows = drop_duplicates_last bvid_key (collected_rows f net clock cfg)"
    by simp
  with dd have s: "summary rows = [(JStr ''BV1'', JStr ''k2'', 8)]"
    by simp
  have "summary (collected_rows f net clock cfg) =
        [(JStr ''BV1'', JStr ''k1'', 7), (JStr ''BV1'', JStr ''k2'', 8)] \<and>
      (\<exists>rows. collect_all_data f net clock cfg = Inr rows \<and>
              distinct (map bvid_key rows) \<and>
              summary rows = [(JStr ''BV1'', JStr ''k2'', 8)])"
    using ev r d s by blast
  then show ?thesis
    unfolding Let_def net_def cfg_def clock_def f_def summary_def .
qed

section \<open>Properties of the command line\<close>

text \<open>
  C9, which the code does not meet: with the dry-run flag, \<^verbatim>\<open>cli.main\<close> calls
  \<^verbatim>\<open>analyzer.validate_config()\<close>, a method that \<^verbatim>\<open>BilibiliAnalyzer\<close> does not define, so no
  method body runs, the failure is logged and the process exits with status 1, whatever
  the configuration.
\<close>

theorem cli_main_dry_run_exits_1:
  "cli_main bodies (args\<lparr>dry_run := True\<rparr>) =
     ([], [DryRunChecking, AnalysisFailed AttributeError], SysExit 1)"
  by (simp add: cli_main_def call_method_def BilibiliAnalyzer_methods_def)

end
